theory Spec2Isabelle
  imports Complex_Main "HOL-Library.Word"
begin

section \<open>Identities, platforms and the settings store\<close>

text \<open>
  \<^verbatim>\<open>FUniqueNetId\<close> carries a platform byte that the code casts to
  \<^verbatim>\<open>EOnlinePlatform\<close>.  The five discriminants the code switches on are
  constructors of their own; every other value of the byte is \<open>OnlinePlatform_Other\<close>.
\<close>

type_synonym byte = "8 word"

datatype EOnlinePlatform =
    OnlinePlatform_Steam
  | OnlinePlatform_Epic
  | OnlinePlatform_Dingo
  | OnlinePlatform_PS4
  | OnlinePlatform_NNX
  | OnlinePlatform_Other nat

record FUniqueNetId =
  Uid :: "64 word"
  EpicAccountId :: string
  Platform :: EOnlinePlatform

text \<open>
  The CVar manager is a shared pointer that may be null; \<^verbatim>\<open>getCvar\<close> yields a
  wrapper that may be null.  Only boolean CVars are read by the modelled code.
\<close>

type_synonym CVarManagerWrapper = "string \<Rightarrow> bool option"

definition API_BASE_URL :: string where
  "API_BASE_URL = ''https://api.borgox.tech/api/v1''"

definition API_STEAM_RETRIEVE :: string where
  "API_STEAM_RETRIEVE = ''/steam/retrieve/''"

definition API_EPIC_RETRIEVE :: string where
  "API_EPIC_RETRIEVE = ''/epic/retrieve/''"

definition API_EPIC_UPLOAD :: string where
  "API_EPIC_UPLOAD = ''/epic/upload/''"

definition API_PSN_RETRIEVE :: string where
  "API_PSN_RETRIEVE = ''/psn/retrieve/''"

definition API_SWITCH_RETRIEVE :: string where
  "API_SWITCH_RETRIEVE = ''/switch/retrieve/''"

definition API_XBOX_RETRIEVE :: string where
  "API_XBOX_RETRIEVE = ''/xbox/retrieve/''"

definition CVAR_STEAM_ENABLED :: string where
  "CVAR_STEAM_ENABLED = ''RLProfilePicturesREVAMP_Steam_Enabled''"

definition CVAR_EPIC_ENABLED :: string where
  "CVAR_EPIC_ENABLED = ''RLProfilePicturesREVAMP_Epic_Enabled''"

definition CVAR_XBOX_ENABLED :: string where
  "CVAR_XBOX_ENABLED = ''RLProfilePicturesREVAMP_Xbox_Enabled''"

definition CVAR_PSN_ENABLED :: string where
  "CVAR_PSN_ENABLED = ''RLProfilePicturesREVAMP_PSN_Enabled''"

definition CVAR_SWITCH_ENABLED :: string where
  "CVAR_SWITCH_ENABLED = ''RLProfilePicturesREVAMP_Switch_Enabled''"

definition CVAR_BRIGHTNESS_ADJUSTMENT_ENABLED :: string where
  "CVAR_BRIGHTNESS_ADJUSTMENT_ENABLED = ''RLProfilePicturesREVAMP_BrightnessAdjustment_Enabled''"

definition CVAR_LOAD_DEFAULT_AVATARS :: string where
  "CVAR_LOAD_DEFAULT_AVATARS = ''rlprofilepictures_load_default_avatars''"

section \<open>AvatarDownloader: policy and URL construction\<close>

text \<open>The lambda \<^verbatim>\<open>getCVarBool\<close> of \<^verbatim>\<open>IsAllowed\<close>: false for a null manager or a null CVar.\<close>

definition getCVarBool :: "CVarManagerWrapper option \<Rightarrow> string \<Rightarrow> bool" where
  "getCVarBool globalCvarManager name =
     (case globalCvarManager of
        None \<Rightarrow> False
      | Some m \<Rightarrow> (case m name of None \<Rightarrow> False | Some b \<Rightarrow> b))"

text \<open>
  \<^verbatim>\<open>IsAllowed\<close>.  The first argument is the result of
  \<^verbatim>\<open>RL::GetPrimaryPlayerID()\<close> (a pointer that may be null).
\<close>

definition IsAllowed ::
  "FUniqueNetId option \<Rightarrow> CVarManagerWrapper option \<Rightarrow> FUniqueNetId \<Rightarrow> bool" where
  "IsAllowed primaryPlayerID globalCvarManager nid =
     (let localOnSteam =
            (case primaryPlayerID of
               None \<Rightarrow> False
             | Some localId \<Rightarrow> Platform localId = OnlinePlatform_Steam)
      in case Platform nid of
           OnlinePlatform_Steam \<Rightarrow>
             \<not> localOnSteam \<and> getCVarBool globalCvarManager CVAR_STEAM_ENABLED
         | OnlinePlatform_Epic \<Rightarrow> getCVarBool globalCvarManager CVAR_EPIC_ENABLED
         | OnlinePlatform_Dingo \<Rightarrow> getCVarBool globalCvarManager CVAR_XBOX_ENABLED
         | OnlinePlatform_PS4 \<Rightarrow> getCVarBool globalCvarManager CVAR_PSN_ENABLED
         | OnlinePlatform_NNX \<Rightarrow> getCVarBool globalCvarManager CVAR_SWITCH_ENABLED
         | OnlinePlatform_Other n \<Rightarrow> False)"

text \<open>\<^verbatim>\<open>std::to_string\<close> on an unsigned integer: its decimal digits.\<close>

definition digit_char :: "nat \<Rightarrow> char" where
  "digit_char d = ''0123456789'' ! d"

function to_string :: "nat \<Rightarrow> string" where
  "to_string n = (if n < 10 then [digit_char n] else to_string (n div 10) @ [digit_char (n mod 10)])"
  by pat_completeness auto
termination
  by (relation "measure id") auto

declare to_string.simps [simp del]

text \<open>
  \<^verbatim>\<open>GetURLForID\<close> dereferences the CVar manager without a null check; that failure is
  the error value of the model.  The empty string is the "not supported" answer.
  Reading the boolean of a null CVar wrapper is taken to give false.
\<close>

datatype fault =
    NullCvarManager | DecodeFailed | ConvertFailed | EncodeFailed | DivisionByZero
  | FilesystemError

definition GetURLForID ::
  "FUniqueNetId option \<Rightarrow> CVarManagerWrapper option \<Rightarrow> FUniqueNetId \<Rightarrow> fault + string" where
  "GetURLForID primaryPlayerID globalCvarManager nid =
     (if \<not> IsAllowed primaryPlayerID globalCvarManager nid then Inr ''''
      else case globalCvarManager of
        None \<Rightarrow> Inl NullCvarManager
      | Some m \<Rightarrow>
          (let default_value = (case m CVAR_LOAD_DEFAULT_AVATARS of None \<Rightarrow> False | Some b \<Rightarrow> b);
               default_enabled = (if default_value then ''true'' else ''false'')
           in case Platform nid of
                OnlinePlatform_Steam \<Rightarrow>
                  Inr (API_BASE_URL @ API_STEAM_RETRIEVE @ to_string (unat (Uid nid))
                       @ ''?default_enabled='' @ default_enabled)
              | OnlinePlatform_Epic \<Rightarrow>
                  Inr (API_BASE_URL @ API_EPIC_RETRIEVE @ EpicAccountId nid
                       @ ''?default_enabled='' @ default_enabled)
              | OnlinePlatform_Dingo \<Rightarrow> Inr ''''
              | OnlinePlatform_PS4 \<Rightarrow>
                  Inr (API_BASE_URL @ API_PSN_RETRIEVE @ to_string (unat (Uid nid))
                       @ ''?default_enabled='' @ default_enabled)
              | OnlinePlatform_NNX \<Rightarrow>
                  Inr (API_BASE_URL @ API_SWITCH_RETRIEVE @ to_string (unat (Uid nid))
                       @ ''?default_enabled='' @ default_enabled)
              | OnlinePlatform_Other n \<Rightarrow> Inr ''''))"

text \<open>
  The policy in the words of the specification: the enable flag that belongs to a
  platform (none for an unrecognised one), what it means for a flag to be true, and
  whether the local viewer is on Steam.
\<close>

fun platform_enable_flag :: "EOnlinePlatform \<Rightarrow> string option" where
  "platform_enable_flag OnlinePlatform_Steam = Some CVAR_STEAM_ENABLED"
| "platform_enable_flag OnlinePlatform_Epic = Some CVAR_EPIC_ENABLED"
| "platform_enable_flag OnlinePlatform_Dingo = Some CVAR_XBOX_ENABLED"
| "platform_enable_flag OnlinePlatform_PS4 = Some CVAR_PSN_ENABLED"
| "platform_enable_flag OnlinePlatform_NNX = Some CVAR_SWITCH_ENABLED"
| "platform_enable_flag (OnlinePlatform_Other n) = None"

definition flag_is_true :: "CVarManagerWrapper option \<Rightarrow> string \<Rightarrow> bool" where
  "flag_is_true globalCvarManager name =
     (case globalCvarManager of None \<Rightarrow> False | Some m \<Rightarrow> m name = Some True)"

definition local_viewer_on_steam :: "FUniqueNetId option \<Rightarrow> bool" where
  "local_viewer_on_steam primaryPlayerID =
     (case primaryPlayerID of None \<Rightarrow> False | Some l \<Rightarrow> Platform l = OnlinePlatform_Steam)"

definition policy_permits ::
  "FUniqueNetId option \<Rightarrow> CVarManagerWrapper option \<Rightarrow> EOnlinePlatform \<Rightarrow> bool" where
  "policy_permits primaryPlayerID globalCvarManager p =
     (case platform_enable_flag p of
        None \<Rightarrow> False
      | Some name \<Rightarrow>
          flag_is_true globalCvarManager name
          \<and> (if p = OnlinePlatform_Steam then \<not> local_viewer_on_steam primaryPlayerID else True))"

section \<open>String utilities\<close>

text \<open>
  \<^verbatim>\<open>SanitizeFilename\<close> replaces every character that occurs in
  \<^verbatim>\<open><>:"|?*\/\<close>, or that compares below 32, by an underscore.  The comparison
  \<^verbatim>\<open>c < 32\<close> is on \<^verbatim>\<open>char\<close>, which is a signed byte for the compiler this
  Windows plugin is built with: the bytes from 128 upwards are negative and compare below 32
  as well.
\<close>

definition invalidChars :: string where
  "invalidChars = [CHR ''<'', CHR ''>'', CHR '':'', CHR 0x22, CHR ''|'', CHR ''?'', CHR ''*'',
                   CHR 0x5C, CHR ''/'']"

definition char_below_32 :: "char \<Rightarrow> bool" where
  "char_below_32 c = (sint (of_char c :: 8 word) < 32)"

definition is_invalid_char :: "char \<Rightarrow> bool" where
  "is_invalid_char c = (c \<in> set invalidChars \<or> char_below_32 c)"

definition SanitizeFilename :: "string \<Rightarrow> string" where
  "SanitizeFilename filename = map (\<lambda>c. if is_invalid_char c then CHR ''_'' else c) filename"

text \<open>\<^verbatim>\<open>std::string::find\<close> with a string argument, compared with \<^verbatim>\<open>npos\<close>.\<close>

primrec str_contains :: "string \<Rightarrow> string \<Rightarrow> bool" where
  "str_contains [] pat = (pat = [])"
| "str_contains (c # cs) pat = (take (length pat) (c # cs) = pat \<or> str_contains cs pat)"

section \<open>File utilities\<close>

definition TEMP_DIRECTORY :: string where
  "TEMP_DIRECTORY = ''C:/Temp''"

definition TEMP_AVATAR_PREFIX :: string where
  "TEMP_AVATAR_PREFIX = ''avatar_''"

definition TEMP_LOCAL_AVATAR :: string where
  "TEMP_LOCAL_AVATAR = ''brightened_local_avatar.png''"

text \<open>
  \<^verbatim>\<open>operator/\<close> of \<^verbatim>\<open>std::filesystem::path\<close> for a relative right operand:
  the two parts joined by the platform's separator, the backslash.
\<close>

definition path_append :: "string \<Rightarrow> string \<Rightarrow> string" where
  "path_append a b = a @ [CHR 0x5C] @ b"

definition GetTempDirectory :: string where
  "GetTempDirectory = TEMP_DIRECTORY"

definition GetTempAvatarPath :: "string \<Rightarrow> string" where
  "GetTempAvatarPath idString =
     path_append (path_append GetTempDirectory TEMP_AVATAR_PREFIX) (idString @ ''.png'')"

definition GetBrightenedLocalAvatarPath :: string where
  "GetBrightenedLocalAvatarPath = path_append GetTempDirectory TEMP_LOCAL_AVATAR"

section \<open>The host: SDK, image library and file streams\<close>

text \<open>
  What the plugin calls but does not define is a parameter of the model: the SDK's
  \<^verbatim>\<open>UOnline_X::UniqueNetIdToString\<close>, the decoder and encoder of the stb image
  library, whether a file stream opens and stays good, what \<^verbatim>\<open>ImageWrapper\<close>
  makes of a file, and whether the operating system refuses to remove a path, given the
  files that exist.  A texture pointer is \<open>None\<close> when null.
\<close>

type_synonym tex_ptr = "nat option"

record stb_image =
  img_width :: nat
  img_height :: nat
  img_channels :: nat
  img_data :: "byte list"

record host =
  UniqueNetIdToString :: "FUniqueNetId \<Rightarrow> string"
  stbi_load_from_memory :: "byte list \<Rightarrow> nat \<Rightarrow> stb_image option"
  stbi_write_png_to_func :: "nat \<Rightarrow> nat \<Rightarrow> nat \<Rightarrow> byte list \<Rightarrow> byte list option"
  ofstream_open :: "string \<Rightarrow> bool"
  ofstream_good :: "string \<Rightarrow> byte list \<Rightarrow> bool"
  LoadForCanvas :: "string \<Rightarrow> byte list \<Rightarrow> bool"
  GetCanvasTex :: "string \<Rightarrow> byte list \<Rightarrow> tex_ptr"
  remove_throws :: "string \<Rightarrow> string set \<Rightarrow> bool"

section \<open>ImageProcessor\<close>

text \<open>
  The lookup table entry \<^verbatim>\<open>(uint8_t)(powf((float)i / 255.0f, GAMMA) * 255.0f)\<close>.
  Single-precision arithmetic is idealised: \<^verbatim>\<open>powf\<close> is the real power function, the
  constant is its decimal literal, and the cast truncates towards zero.  Every value of
  the table lies more than three thousandths away from the next integer (except at 0 and
  255, where the computation is exact), far more than single precision can be off by.
\<close>

definition GAMMA_CORRECTION_EXPONENT :: real where
  "GAMMA_CORRECTION_EXPONENT = 4545454545 / 10000000000"

definition powf :: "real \<Rightarrow> real \<Rightarrow> real" where
  "powf x y = x powr y"

definition uint8_cast :: "real \<Rightarrow> byte" where
  "uint8_cast r = word_of_int (if 0 \<le> r then \<lfloor>r\<rfloor> else \<lceil>r\<rceil>)"

definition srgb_lookup :: "byte \<Rightarrow> byte" where
  "srgb_lookup i = uint8_cast (powf (real (unat i) / 255) GAMMA_CORRECTION_EXPONENT * 255)"

text \<open>
  The two nested loops over pixels and channels, writing into the decoded buffer in place.
\<close>

function gamma_channels :: "byte list \<Rightarrow> nat \<Rightarrow> nat \<Rightarrow> nat \<Rightarrow> byte list" where
  "gamma_channels buf channels i c =
     (if c < channels
      then gamma_channels
             (if c < 3
              then (let pixelIndex = i * channels + c
                    in buf[pixelIndex := srgb_lookup (buf ! pixelIndex)])
              else buf)
             channels i (c + 1)
      else buf)"
  by pat_completeness auto
termination
  by (relation "measure (\<lambda>(buf, channels, i, c). channels - c)") auto

declare gamma_channels.simps [simp del]

function gamma_pixels :: "byte list \<Rightarrow> nat \<Rightarrow> nat \<Rightarrow> nat \<Rightarrow> byte list" where
  "gamma_pixels buf channels n i =
     (if i < n then gamma_pixels (gamma_channels buf channels i 0) channels n (i + 1) else buf)"
  by pat_completeness auto
termination
  by (relation "measure (\<lambda>(buf, channels, n, i). n - i)") auto

declare gamma_pixels.simps [simp del]

text \<open>
  \<^verbatim>\<open>BrightenImage\<close>.  The flag is a shared pointer to a boolean: \<open>None\<close> when null.
  Each \<^verbatim>\<open>throw\<close> is an error value; the division \<^verbatim>\<open>totalPixels / channels\<close> by a
  zero channel count is one too.
\<close>

definition reencode_unchanged :: "host \<Rightarrow> byte list \<Rightarrow> fault + byte list" where
  "reencode_unchanged h pngData =
     (case stbi_load_from_memory h pngData 0 of
        None \<Rightarrow> Inl DecodeFailed
      | Some img \<Rightarrow>
          (let channels_in_file = img_channels img;
               out_channels0 = (if channels_in_file \<ge> 4 then 4 else channels_in_file);
               out_channels = (if out_channels0 = 0 then 3 else out_channels0)
           in case (if channels_in_file \<noteq> out_channels
                    then stbi_load_from_memory h pngData out_channels
                    else Some img) of
                None \<Rightarrow> Inl ConvertFailed
              | Some decoded \<Rightarrow>
                  (case stbi_write_png_to_func h (img_width decoded) (img_height decoded)
                          out_channels (img_data decoded) of
                     None \<Rightarrow> Inl EncodeFailed
                   | Some recompressedData \<Rightarrow> Inr recompressedData)))"

definition gamma_brighten :: "host \<Rightarrow> byte list \<Rightarrow> fault + byte list" where
  "gamma_brighten h pngData =
     (case stbi_load_from_memory h pngData 0 of
        None \<Rightarrow> Inl DecodeFailed
      | Some img \<Rightarrow>
          (let width = img_width img; height = img_height img; channels = img_channels img;
               totalPixels = width * height * channels
           in if channels = 0 then Inl DivisionByZero
              else case stbi_write_png_to_func h width height channels
                          (gamma_pixels (img_data img) channels (totalPixels div channels) 0) of
                     None \<Rightarrow> Inl EncodeFailed
                   | Some recompressedData \<Rightarrow> Inr recompressedData))"

definition BrightenImage :: "host \<Rightarrow> byte list \<Rightarrow> bool option \<Rightarrow> fault + byte list" where
  "BrightenImage h pngData brightnessEnabled =
     (if brightnessEnabled \<noteq> None \<and> \<not> the brightnessEnabled
      then reencode_unchanged h pngData
      else gamma_brighten h pngData)"

section \<open>AvatarManager and the downloader's callbacks\<close>

text \<open>
  The state the operations share: the avatar cache, a \<^verbatim>\<open>std::map\<close> from id strings
  to texture pointers, and the set of files that exist.  What an operation does to the
  outside is the list of effects it returns, in order: log lines by level, calls of
  \<^verbatim>\<open>SetAvatar\<close> (the apply step), calls of the image processor, the downloader's
  entry points, HTTP requests, file removals with their result, and invocations of the
  upload's completion callback.
\<close>

record world =
  avatar_cache :: "string \<rightharpoonup> tex_ptr"
  files :: "string set"

datatype effect =
    LogDebug
  | LogInfo
  | LogSuccess
  | LogError
  | SetAvatar FUniqueNetId tex_ptr
  | DetachAvatar FUniqueNetId
  | BrightenImageCall "byte list" "bool option"
  | DownloadAvatarCall FUniqueNetId
  | DownloadXboxAvatarCall FUniqueNetId string
  | SendCurlRequest string string
  | FilesystemRemove string bool
  | UploadCallback bool

text \<open>
  \<^verbatim>\<open>std::filesystem::remove(path)\<close>, the overload that throws: it deletes the file
  if it exists and says whether it did; on an error of the operating system it throws
  \<^verbatim>\<open>filesystem_error\<close> and deletes nothing.
\<close>

definition filesystem_remove :: "host \<Rightarrow> string \<Rightarrow> world \<Rightarrow> fault + world \<times> effect list" where
  "filesystem_remove h path w =
     (if remove_throws h path (files w) then Inl FilesystemError
      else Inr (w\<lparr>files := files w - {path}\<rparr>, [FilesystemRemove path (path \<in> files w)]))"

definition GetBrightnessEnabled :: "CVarManagerWrapper option \<Rightarrow> bool option \<times> effect list" where
  "GetBrightnessEnabled globalCvarManager =
     (case globalCvarManager of
        None \<Rightarrow> (None, [LogDebug])
      | Some m \<Rightarrow>
          (case m CVAR_BRIGHTNESS_ADJUSTMENT_ENABLED of
             None \<Rightarrow> (None, [LogDebug])
           | Some b \<Rightarrow> (Some b, [])))"

definition IsAvatarCached :: "world \<Rightarrow> string \<Rightarrow> bool" where
  "IsAvatarCached w idString =
     (case avatar_cache w idString of None \<Rightarrow> False | Some tex \<Rightarrow> tex \<noteq> None)"

definition GetCachedAvatar :: "world \<Rightarrow> string \<Rightarrow> tex_ptr" where
  "GetCachedAvatar w idString =
     (case avatar_cache w idString of None \<Rightarrow> None | Some tex \<Rightarrow> tex)"

definition ClearCache :: "world \<Rightarrow> world \<times> effect list" where
  "ClearCache w = (w\<lparr>avatar_cache := Map.empty\<rparr>, [LogDebug])"

text \<open>
  The tail that \<^verbatim>\<open>LoadAvatar\<close> and \<^verbatim>\<open>LoadAvatarDirect\<close> share: write the
  bytes to a temporary file, load it as a texture, remove the file, cache and apply.  Both
  run it inside \<^verbatim>\<open>try\<close> with a handler for \<^verbatim>\<open>std::exception\<close> that logs an
  error: a removal that throws ends the tail there.
\<close>

definition write_load_cache ::
  "host \<Rightarrow> FUniqueNetId \<Rightarrow> string \<Rightarrow> byte list \<Rightarrow> effect list \<Rightarrow> world
     \<Rightarrow> world \<times> effect list" where
  "write_load_cache h nid idString bytes closing w =
     (let filePath = GetTempAvatarPath idString in
      if \<not> ofstream_open h filePath then (w, [LogDebug, LogDebug])
      else
        let w1 = w\<lparr>files := insert filePath (files w)\<rparr> in
        if \<not> ofstream_good h filePath bytes then (w1, [LogDebug, LogDebug])
        else if filePath \<notin> files w1 then (w1, [LogDebug, LogDebug, LogDebug])
        else if \<not> LoadForCanvas h filePath bytes
        then (case filesystem_remove h filePath w1 of
                Inl e \<Rightarrow> (w1, [LogDebug, LogDebug, LogDebug, LogError])
              | Inr (w2, rm) \<Rightarrow> (w2, [LogDebug, LogDebug, LogDebug] @ rm))
        else
          case filesystem_remove h filePath w1 of
            Inl e \<Rightarrow> (w1, [LogDebug, LogDebug, LogError])
          | Inr (w2, rm) \<Rightarrow>
              (case GetCanvasTex h filePath bytes of
                 None \<Rightarrow> (w2, [LogDebug, LogDebug] @ rm @ [LogDebug])
               | Some t \<Rightarrow>
                   (w2\<lparr>avatar_cache := (avatar_cache w2)(idString \<mapsto> Some t)\<rparr>,
                    [LogDebug, LogDebug] @ rm @ [SetAvatar nid (Some t)] @ closing)))"

definition LoadAvatar ::
  "host \<Rightarrow> CVarManagerWrapper option \<Rightarrow> FUniqueNetId \<Rightarrow> byte list \<Rightarrow> world
     \<Rightarrow> world \<times> effect list" where
  "LoadAvatar h globalCvarManager nid bytes w =
     (let idString = SanitizeFilename (UniqueNetIdToString h nid) in
      case avatar_cache w idString of
        Some (Some tex) \<Rightarrow> (w, [LogDebug, LogDebug, SetAvatar nid (Some tex)])
      | _ \<Rightarrow>
          (let (brightnessEnabled, logs) = GetBrightnessEnabled globalCvarManager in
           case BrightenImage h bytes brightnessEnabled of
             Inl e \<Rightarrow> (w, [LogDebug] @ logs @ [BrightenImageCall bytes brightnessEnabled, LogError])
           | Inr brightenedData \<Rightarrow>
               (let (w', es) = write_load_cache h nid idString brightenedData [] w
                in (w', [LogDebug] @ logs @ [BrightenImageCall bytes brightnessEnabled] @ es))))"

definition LoadAvatarDirect ::
  "host \<Rightarrow> FUniqueNetId \<Rightarrow> string \<Rightarrow> byte list \<Rightarrow> bool \<Rightarrow> world \<Rightarrow> world \<times> effect list" where
  "LoadAvatarDirect h nid idString alreadyProcessedData forceUpdate w =
     (case (if forceUpdate then None else avatar_cache w idString) of
        Some (Some tex) \<Rightarrow> (w, [LogDebug, LogDebug, SetAvatar nid (Some tex)])
      | _ \<Rightarrow>
          (let (w', es) = write_load_cache h nid idString alreadyProcessedData [LogSuccess] w
           in (w', [LogDebug] @ es)))"

section \<open>AvatarDownloader: requests and completions\<close>

text \<open>
  \<^verbatim>\<open>DownloadAvatar\<close> up to the request, and the completion lambda that
  \<^verbatim>\<open>SendCurlRequest\<close> calls with the status, the payload pointer (\<open>None\<close> when
  null) and the payload size.  \<^verbatim>\<open>gameWrapper->Execute\<close> runs its argument on the game
  thread; the model runs it in place.  The load callback is a \<^verbatim>\<open>std::function\<close>
  that may be empty.
\<close>

type_synonym load_callback = "FUniqueNetId \<Rightarrow> byte list \<Rightarrow> world \<Rightarrow> world \<times> effect list"

definition DownloadAvatar ::
  "FUniqueNetId option \<Rightarrow> CVarManagerWrapper option \<Rightarrow> FUniqueNetId \<Rightarrow> fault + effect list" where
  "DownloadAvatar primaryPlayerID globalCvarManager nid =
     (case GetURLForID primaryPlayerID globalCvarManager nid of
        Inl e \<Rightarrow> Inl e
      | Inr url \<Rightarrow>
          if url = [] then Inr [LogDebug, LogDebug]
          else Inr [LogDebug, SendCurlRequest ''GET'' url])"

definition download_completed ::
  "load_callback option \<Rightarrow> FUniqueNetId \<Rightarrow> int \<Rightarrow> byte list option \<Rightarrow> nat \<Rightarrow> world
     \<Rightarrow> world \<times> effect list" where
  "download_completed loadAvatarCallback nid http_code data_ptr data_size w =
     (if http_code \<noteq> 200 then (w, [LogDebug, LogDebug])
      else if data_ptr = None \<or> data_size = 0 then (w, [LogDebug, LogDebug])
      else
        let bytes = take data_size (the data_ptr) in
        case loadAvatarCallback of
          None \<Rightarrow> (w, [LogDebug, LogSuccess])
        | Some cb \<Rightarrow> (let (w', es) = cb nid bytes w in (w', [LogDebug, LogSuccess] @ es)))"

definition DownloadXboxAvatar ::
  "CVarManagerWrapper option \<Rightarrow> FUniqueNetId \<Rightarrow> string \<Rightarrow> fault + effect list" where
  "DownloadXboxAvatar globalCvarManager nid playername =
     (case globalCvarManager of
        None \<Rightarrow> Inl NullCvarManager
      | Some m \<Rightarrow>
          (let default_value = (case m CVAR_LOAD_DEFAULT_AVATARS of None \<Rightarrow> False | Some b \<Rightarrow> b);
               default_enabled = (if default_value then ''true'' else ''false'')
           in Inr [SendCurlRequest ''GET''
                     (API_BASE_URL @ API_XBOX_RETRIEVE @ playername
                      @ ''?default_enabled='' @ default_enabled)]))"

text \<open>
  \<^verbatim>\<open>UploadToCDN\<close>: the guard and the request, then the completion lambda.  The
  completion removes the staged file and then calls the callback, which is a
  \<^verbatim>\<open>std::function\<close> that may be empty.  Neither the completion nor the callback
  handles exceptions: a run of either returns the world and the effects up to its end or
  up to the point where an exception left it, and that exception if there was one.
\<close>

type_synonym attempt = "(world \<times> effect list) \<times> fault option"

type_synonym upload_callback = "bool \<Rightarrow> world \<Rightarrow> attempt"

definition invoke_callback :: "upload_callback option \<Rightarrow> bool \<Rightarrow> world \<Rightarrow> attempt" where
  "invoke_callback callback success w =
     (case callback of
        None \<Rightarrow> ((w, []), None)
      | Some cb \<Rightarrow>
          (let ((w', es), thrown) = cb success w in ((w', UploadCallback success # es), thrown)))"

definition upload_response_ok :: "int \<Rightarrow> string \<Rightarrow> bool" where
  "upload_response_ok http_code response =
     (response \<noteq> [] \<and> http_code = 200
      \<and> (str_contains response ([CHR 0x22] @ ''success'' @ [CHR 0x22] @ '':true'')
         \<or> (str_contains response ''success'' \<and> str_contains response ''true'')))"

definition upload_completed ::
  "host \<Rightarrow> string \<Rightarrow> upload_callback option \<Rightarrow> int \<Rightarrow> string \<Rightarrow> world \<Rightarrow> attempt" where
  "upload_completed h filePath callback http_code response w =
     (let success = upload_response_ok http_code response;
          l = (if success then LogSuccess else LogError)
      in case filesystem_remove h filePath w of
           Inl e \<Rightarrow> ((w, [l]), Some e)
         | Inr (w1, rm) \<Rightarrow>
             (let ((w2, es), thrown) = invoke_callback callback success w1
              in ((w2, [l] @ rm @ es), thrown)))"

datatype upload_outcome = NotSent | Pending

definition UploadToCDN ::
  "string \<Rightarrow> string \<Rightarrow> upload_callback option \<Rightarrow> world \<Rightarrow> attempt \<times> upload_outcome" where
  "UploadToCDN filePath epic_id callback w =
     (if filePath = [] \<or> epic_id = []
      then (let ((w', es), thrown) = invoke_callback callback False w
            in (((w', LogError # es), thrown), NotSent))
      else (((w, [SendCurlRequest ''POST'' (API_BASE_URL @ API_EPIC_UPLOAD @ epic_id)]), None),
            Pending))"

section \<open>AvatarManager: local avatar, removal and remote load\<close>

text \<open>
  The part of the game's object graph the manager reads: whether the player controller and
  the vanity manager are there, the primary player's id, and whether the vanity manager
  has an avatar component for it.
\<close>

record engine =
  PlayerController_present :: bool
  VanitySetManager_present :: bool
  PrimaryPlayerID :: "FUniqueNetId option"
  GetAvatar_present :: bool

definition default_FUniqueNetId :: FUniqueNetId where
  "default_FUniqueNetId = \<lparr>Uid = 0, EpicAccountId = [], Platform = OnlinePlatform_Other 0\<rparr>"

text \<open>
  The completion callback that \<^verbatim>\<open>AddLocalAvatar\<close> hands to \<^verbatim>\<open>UploadToCDN\<close>:
  it logs, applies the processed bytes and removes the staged file once more.
\<close>

definition local_upload_done ::
  "host \<Rightarrow> FUniqueNetId \<Rightarrow> byte list \<Rightarrow> string \<Rightarrow> upload_callback" where
  "local_upload_done h uniqueId dataCopy tempPath success w =
     (let l = (if success then LogInfo else LogError);
          idStr = SanitizeFilename (UniqueNetIdToString h uniqueId);
          (w1, es) = LoadAvatarDirect h uniqueId idStr dataCopy True w
      in case filesystem_remove h tempPath w1 of
           Inl e \<Rightarrow> ((w1, [l] @ es), Some e)
         | Inr (w2, rm) \<Rightarrow> ((w2, [l] @ es @ rm), None))"

text \<open>
  \<^verbatim>\<open>AddLocalAvatar\<close>.  The bytes of the chosen file are \<open>None\<close> when it cannot be
  read.  For an Epic identity the result says whether an upload is pending; its completion
  is \<open>upload_completed\<close> with the callback above.  The lambda handed to
  \<^verbatim>\<open>gameWrapper->Execute\<close> catches \<^verbatim>\<open>std::exception\<close> and logs an error.
\<close>

definition AddLocalAvatar ::
  "host \<Rightarrow> CVarManagerWrapper option \<Rightarrow> engine \<Rightarrow> byte list option \<Rightarrow> world
     \<Rightarrow> (world \<times> effect list) \<times> upload_outcome" where
  "AddLocalAvatar h globalCvarManager g originalFile w =
     (if \<not> PlayerController_present g \<or> \<not> VanitySetManager_present g
      then ((w, [LogDebug]), NotSent)
      else
        let uniqueId = (case PrimaryPlayerID g of Some i \<Rightarrow> i | None \<Rightarrow> default_FUniqueNetId) in
        if Uid uniqueId = 0 \<and> EpicAccountId uniqueId = [] then ((w, [LogDebug]), NotSent)
        else case originalFile of
          None \<Rightarrow> ((w, [LogError]), NotSent)
        | Some originalData \<Rightarrow>
            (let (brightnessEnabled, logs) = GetBrightnessEnabled globalCvarManager in
             case BrightenImage h originalData brightnessEnabled of
               Inl e \<Rightarrow>
                 ((w, logs @ [BrightenImageCall originalData brightnessEnabled, LogError]), NotSent)
             | Inr processedData \<Rightarrow>
                 (let pre = logs @ [BrightenImageCall originalData brightnessEnabled];
                      idString = SanitizeFilename (UniqueNetIdToString h uniqueId)
                  in if Platform uniqueId = OnlinePlatform_Epic
                     then
                       (let tempPath = GetBrightenedLocalAvatarPath in
                        if \<not> ofstream_open h tempPath
                        then ((w, pre @ [LogInfo, LogError]), NotSent)
                        else
                          let w1 = w\<lparr>files := insert tempPath (files w)\<rparr>;
                              (((w2, es), thrown), outcome) =
                                 UploadToCDN tempPath (EpicAccountId uniqueId)
                                   (Some (local_upload_done h uniqueId processedData tempPath)) w1
                          in ((w2, pre @ [LogInfo] @ es
                                     @ (case thrown of None \<Rightarrow> [] | Some e \<Rightarrow> [LogError])),
                              outcome))
                     else
                       (let (w1, es) = LoadAvatarDirect h uniqueId idString processedData True w
                        in ((w1, pre @ [LogDebug] @ es), NotSent)))))"

definition RemoveLocalAvatar :: "host \<Rightarrow> engine \<Rightarrow> world \<Rightarrow> world \<times> effect list" where
  "RemoveLocalAvatar h g w =
     (if \<not> PlayerController_present g \<or> \<not> VanitySetManager_present g then (w, [])
      else
        let uniqueId = (case PrimaryPlayerID g of Some i \<Rightarrow> i | None \<Rightarrow> default_FUniqueNetId) in
        if Uid uniqueId = 0 \<and> EpicAccountId uniqueId = [] then (w, [])
        else if \<not> GetAvatar_present g then (w, [LogError])
        else
          let idString = UniqueNetIdToString h uniqueId;
              w1 = w\<lparr>avatar_cache := (avatar_cache w)(idString := None)\<rparr>
          in (w1, [DetachAvatar uniqueId] @ replicate (card (dom (avatar_cache w1))) LogDebug
                    @ [LogSuccess]))"

text \<open>
  \<^verbatim>\<open>LoadForPRI\<close>.  The player controller is the result of the cast (\<open>None\<close> when
  null) and holds a pointer to the local player's PRI; the argument is a pointer to the PRI
  to load.  The two \<^verbatim>\<open>std::async\<close> tasks call the downloader.
\<close>

record APRI_TA =
  UniqueId :: FUniqueNetId
  PlayerName :: string

record APlayerController_TA =
  PRI :: "APRI_TA option"

definition LoadForPRI ::
  "host \<Rightarrow> APlayerController_TA option \<Rightarrow> APRI_TA option \<Rightarrow> world \<Rightarrow> effect list" where
  "LoadForPRI h pc pri w =
     (case (pc, pri) of
        (Some c, Some p) \<Rightarrow>
          (case PRI c of
             None \<Rightarrow> [LogDebug]
           | Some localPRI \<Rightarrow>
               (let localId = UniqueId localPRI; priId = UniqueId p in
                if Uid localId = Uid priId \<and> EpicAccountId localId = EpicAccountId priId
                then [LogDebug]
                else
                  let uniqueId = UniqueId p in
                  if Platform uniqueId = OnlinePlatform_Dingo
                  then [DownloadXboxAvatarCall uniqueId (PlayerName p)]
                  else
                    let idString = UniqueNetIdToString h uniqueId in
                    case GetCachedAvatar w idString of
                      Some t \<Rightarrow> [LogDebug, SetAvatar uniqueId (Some t)]
                    | None \<Rightarrow> [LogDebug, DownloadAvatarCall uniqueId]))
      | _ \<Rightarrow> [LogDebug])"

section \<open>Observations on effect lists\<close>

fun is_fetch :: "effect \<Rightarrow> bool" where
  "is_fetch (DownloadAvatarCall i) = True"
| "is_fetch (DownloadXboxAvatarCall i n) = True"
| "is_fetch (SendCurlRequest v u) = True"
| "is_fetch e = False"

fun is_apply :: "effect \<Rightarrow> bool" where
  "is_apply (SetAvatar i t) = True"
| "is_apply e = False"

fun is_normalize :: "effect \<Rightarrow> bool" where
  "is_normalize (BrightenImageCall b f) = True"
| "is_normalize e = False"


text \<open>
  The identity \<^verbatim>\<open>LoadForPRI\<close> compares against: the id of the local player's PRI,
  when the player controller and its PRI are there.
\<close>

definition local_identity :: "APlayerController_TA option \<Rightarrow> FUniqueNetId option" where
  "local_identity pc =
     (case pc of
        None \<Rightarrow> None
      | Some c \<Rightarrow> (case PRI c of None \<Rightarrow> None | Some l \<Rightarrow> Some (UniqueId l)))"

text \<open>The key under which \<^verbatim>\<open>LoadAvatar\<close> and \<^verbatim>\<open>AddLocalAvatar\<close> cache a texture.\<close>

definition cache_key :: "host \<Rightarrow> FUniqueNetId \<Rightarrow> string" where
  "cache_key h nid = SanitizeFilename (UniqueNetIdToString h nid)"

text \<open>
  The characters that \<^verbatim>\<open>SanitizeFilename\<close> turns into an underscore, the underscore
  included, and the invariant that every key of the cache is a sanitised string.
\<close>

definition becomes_underscore :: "char \<Rightarrow> bool" where
  "becomes_underscore c = (is_invalid_char c \<or> c = CHR ''_'')"

definition has_invalid_char :: "string \<Rightarrow> bool" where
  "has_invalid_char s = list_ex is_invalid_char s"

definition cache_keys_sanitized :: "world \<Rightarrow> bool" where
  "cache_keys_sanitized w = (\<forall>k \<in> dom (avatar_cache w). \<not> has_invalid_char k)"

text \<open>
  The worlds the plugin can be in: it starts with an empty cache, and each step is one of
  the manager's operations or completions, or a change of the file system from outside.
\<close>

inductive reachable :: "host \<Rightarrow> world \<Rightarrow> bool" for h :: host where
  start: "reachable h \<lparr>avatar_cache = Map.empty, files = fs\<rparr>"
| loaded: "reachable h w \<Longrightarrow> reachable h (fst (LoadAvatar h mgr nid bytes w))"
| downloaded:
    "reachable h w \<Longrightarrow>
     reachable h (fst (download_completed (Some (LoadAvatar h mgr)) nid http_code data_ptr data_size w))"
| added: "reachable h w \<Longrightarrow> reachable h (fst (fst (AddLocalAvatar h mgr g originalFile w)))"
| uploaded:
    "reachable h w \<Longrightarrow>
     reachable h (fst (fst (upload_completed h GetBrightenedLocalAvatarPath
        (Some (local_upload_done h uniqueId dataCopy GetBrightenedLocalAvatarPath))
        http_code response w)))"
| removed: "reachable h w \<Longrightarrow> reachable h (fst (RemoveLocalAvatar h g w))"
| cleared: "reachable h w \<Longrightarrow> reachable h (fst (ClearCache w))"
| files_changed: "reachable h w \<Longrightarrow> reachable h (w\<lparr>files := fs\<rparr>)"



text \<open>
  The brightness curve in the words of the specification:
  \<^verbatim>\<open>output = round(255 * (input/255) ^ gamma)\<close>.
\<close>

definition spec_round_gamma :: "byte \<Rightarrow> int" where
  "spec_round_gamma v = round (255 * (real (unat v) / 255) powr GAMMA_CORRECTION_EXPONENT)"

section \<open>Sample host and inputs\<close>

text \<open>
  Modelled from the spec: \<^verbatim>\<open>UOnline_X::UniqueNetIdToString\<close> belongs to the game SDK
  and is not among the sources.  The specification derives the key from "platform
  discriminant + id": the sample prints a tag for the platform, a separator, and the Epic
  account id for an Epic identity or the decimal Uid for any other.
\<close>

fun platform_tag :: "EOnlinePlatform \<Rightarrow> string" where
  "platform_tag OnlinePlatform_Steam = ''Steam''"
| "platform_tag OnlinePlatform_Epic = ''Epic''"
| "platform_tag OnlinePlatform_Dingo = ''XboxOne''"
| "platform_tag OnlinePlatform_PS4 = ''PS4''"
| "platform_tag OnlinePlatform_NNX = ''Switch''"
| "platform_tag (OnlinePlatform_Other n) = ''Unknown''"

definition sample_id_string :: "string \<Rightarrow> FUniqueNetId \<Rightarrow> string" where
  "sample_id_string sep nid =
     platform_tag (Platform nid) @ sep
     @ (if Platform nid = OnlinePlatform_Epic then EpicAccountId nid
        else to_string (unat (Uid nid)))"

text \<open>
  A toy image format for the sample decoder and encoder: width, height and channel count
  in one byte each, then the pixel bytes.
\<close>

definition toy_decode :: "byte list \<Rightarrow> nat \<Rightarrow> stb_image option" where
  "toy_decode bytes req =
     (case bytes of
        wd # ht # ch # rest \<Rightarrow>
          if ch \<noteq> 0 \<and> (req = 0 \<or> req = unat ch) \<and> length rest = unat wd * unat ht * unat ch
          then Some \<lparr>img_width = unat wd, img_height = unat ht, img_channels = unat ch,
                     img_data = rest\<rparr>
          else None
      | _ \<Rightarrow> None)"

definition toy_encode :: "nat \<Rightarrow> nat \<Rightarrow> nat \<Rightarrow> byte list \<Rightarrow> byte list option" where
  "toy_encode wd ht ch pixels = Some (of_nat wd # of_nat ht # of_nat ch # pixels)"

definition sample_host :: "string \<Rightarrow> host" where
  "sample_host sep =
     \<lparr>UniqueNetIdToString = sample_id_string sep,
      stbi_load_from_memory = toy_decode,
      stbi_write_png_to_func = toy_encode,
      ofstream_open = (\<lambda>p. True),
      ofstream_good = (\<lambda>p b. True),
      LoadForCanvas = (\<lambda>p b. True),
      GetCanvasTex = (\<lambda>p b. Some (Suc (length b))),
      remove_throws = (\<lambda>p fs. False)\<rparr>"

definition sample_cvars :: CVarManagerWrapper where
  "sample_cvars =
     map_of [(CVAR_STEAM_ENABLED, True), (CVAR_EPIC_ENABLED, False), (CVAR_XBOX_ENABLED, True),
             (CVAR_PSN_ENABLED, True), (CVAR_BRIGHTNESS_ADJUSTMENT_ENABLED, False),
             (CVAR_LOAD_DEFAULT_AVATARS, True)]"

definition steam_player :: FUniqueNetId where
  "steam_player = \<lparr>Uid = 76561198000000001, EpicAccountId = [], Platform = OnlinePlatform_Steam\<rparr>"

definition epic_player :: FUniqueNetId where
  "epic_player = \<lparr>Uid = 0, EpicAccountId = ''abc123'', Platform = OnlinePlatform_Epic\<rparr>"

definition epic_viewer :: FUniqueNetId where
  "epic_viewer = \<lparr>Uid = 0, EpicAccountId = ''0f0f'', Platform = OnlinePlatform_Epic\<rparr>"

definition xbox_player :: FUniqueNetId where
  "xbox_player = \<lparr>Uid = 7, EpicAccountId = [], Platform = OnlinePlatform_Dingo\<rparr>"

definition empty_world :: world where
  "empty_world = \<lparr>avatar_cache = Map.empty, files = {}\<rparr>"






section \<open>Policy gating\<close>

lemma getCVarBool_flag: "getCVarBool mgr name = flag_is_true mgr name"
  by (auto simp: getCVarBool_def flag_is_true_def split: option.splits)

lemma IsAllowed_manager: "IsAllowed prim mgr ident \<Longrightarrow> mgr \<noteq> None"
  by (cases "Platform ident")
     (auto simp: IsAllowed_def Let_def getCVarBool_def split: option.splits)

lemma IsAllowed_iff_policy:
  "IsAllowed prim mgr ident = policy_permits prim mgr (Platform ident)"
  by (cases "Platform ident")
     (auto simp: IsAllowed_def policy_permits_def Let_def getCVarBool_flag
        local_viewer_on_steam_def)

lemma GetURLForID_total: "\<exists>url. GetURLForID prim mgr ident = Inr url"
proof (cases "IsAllowed prim mgr ident")
  case False
  then show ?thesis by (simp add: GetURLForID_def)
next
  case True
  then obtain m where m: "mgr = Some m"
    using IsAllowed_manager by blast
  show ?thesis
    by (cases "Platform ident") (simp_all add: GetURLForID_def True m Let_def)
qed

text \<open>
  Claim C1.  \<^verbatim>\<open>IsAllowed\<close> permits a fetch exactly when the platform has an enable
  flag, that flag is true, and, for Steam only, the local viewer is not on Steam.  For an
  unrecognised platform or a false flag the answer is "disallowed" and the URL is the empty
  string, whatever the id fields hold.  Neither function fails: \<^verbatim>\<open>IsAllowed\<close> has no
  failing branch, and the unchecked manager dereference of \<^verbatim>\<open>GetURLForID\<close> is never
  reached with a null manager.
\<close>

theorem IsAllowed_policy_gating:
  "(IsAllowed prim mgr ident \<longleftrightarrow>
      (\<exists>name. platform_enable_flag (Platform ident) = Some name \<and> flag_is_true mgr name)
      \<and> (Platform ident = OnlinePlatform_Steam \<longrightarrow> \<not> local_viewer_on_steam prim))
   \<and> ((platform_enable_flag (Platform ident) = None
        \<or> (\<exists>name. platform_enable_flag (Platform ident) = Some name \<and> \<not> flag_is_true mgr name))
       \<longrightarrow> (\<forall>u e. \<not> IsAllowed prim mgr (ident\<lparr>Uid := u, EpicAccountId := e\<rparr>)
                 \<and> GetURLForID prim mgr (ident\<lparr>Uid := u, EpicAccountId := e\<rparr>) = Inr ''''))
   \<and> (\<exists>url. GetURLForID prim mgr ident = Inr url)"
proof (intro conjI)
  show "IsAllowed prim mgr ident \<longleftrightarrow>
      (\<exists>name. platform_enable_flag (Platform ident) = Some name \<and> flag_is_true mgr name)
      \<and> (Platform ident = OnlinePlatform_Steam \<longrightarrow> \<not> local_viewer_on_steam prim)"
    by (cases "Platform ident") (auto simp: IsAllowed_iff_policy policy_permits_def)
next
  show "(platform_enable_flag (Platform ident) = None
        \<or> (\<exists>name. platform_enable_flag (Platform ident) = Some name \<and> \<not> flag_is_true mgr name))
       \<longrightarrow> (\<forall>u e. \<not> IsAllowed prim mgr (ident\<lparr>Uid := u, EpicAccountId := e\<rparr>)
                 \<and> GetURLForID prim mgr (ident\<lparr>Uid := u, EpicAccountId := e\<rparr>) = Inr '''')"
  proof (intro impI allI)
    fix u e
    assume a: "platform_enable_flag (Platform ident) = None
        \<or> (\<exists>name. platform_enable_flag (Platform ident) = Some name \<and> \<not> flag_is_true mgr name)"
    have "\<not> policy_permits prim mgr (Platform ident)"
      using a by (auto simp: policy_permits_def)
    then have n: "\<not> IsAllowed prim mgr (ident\<lparr>Uid := u, EpicAccountId := e\<rparr>)"
      by (simp add: IsAllowed_iff_policy)
    then show "\<not> IsAllowed prim mgr (ident\<lparr>Uid := u, EpicAccountId := e\<rparr>)
                 \<and> GetURLForID prim mgr (ident\<lparr>Uid := u, EpicAccountId := e\<rparr>) = Inr ''''"
      by (simp add: GetURLForID_def)
  qed
next
  show "\<exists>url. GetURLForID prim mgr ident = Inr url"
    by (rule GetURLForID_total)
qed

lemma cvar_names:
  "CVAR_STEAM_ENABLED = ''RLProfilePicturesREVAMP_Steam_Enabled''"
  "CVAR_EPIC_ENABLED = ''RLProfilePicturesREVAMP_Epic_Enabled''"
  "CVAR_XBOX_ENABLED = ''RLProfilePicturesREVAMP_Xbox_Enabled''"
  "CVAR_PSN_ENABLED = ''RLProfilePicturesREVAMP_PSN_Enabled''"
  "CVAR_SWITCH_ENABLED = ''RLProfilePicturesREVAMP_Switch_Enabled''"
  "CVAR_BRIGHTNESS_ADJUSTMENT_ENABLED = ''RLProfilePicturesREVAMP_BrightnessAdjustment_Enabled''"
  "CVAR_LOAD_DEFAULT_AVATARS = ''rlprofilepictures_load_default_avatars''"
  by (simp_all add: CVAR_STEAM_ENABLED_def CVAR_EPIC_ENABLED_def CVAR_XBOX_ENABLED_def
        CVAR_PSN_ENABLED_def CVAR_SWITCH_ENABLED_def CVAR_BRIGHTNESS_ADJUSTMENT_ENABLED_def
        CVAR_LOAD_DEFAULT_AVATARS_def)

text \<open>
  With Steam enabled and Epic disabled: a Steam player is allowed for an Epic viewer and
  refused for a Steam viewer, and an Epic player is refused whatever its id fields are.
\<close>

theorem IsAllowed_policy_gating_witness:
  "IsAllowed (Some epic_viewer) (Some sample_cvars) steam_player
   \<and> \<not> IsAllowed (Some steam_player) (Some sample_cvars) steam_player
   \<and> platform_enable_flag (Platform epic_player) = Some CVAR_EPIC_ENABLED
   \<and> \<not> flag_is_true (Some sample_cvars) CVAR_EPIC_ENABLED
   \<and> \<not> IsAllowed (Some epic_viewer) (Some sample_cvars)
         (epic_player\<lparr>Uid := 5, EpicAccountId := ''ffff''\<rparr>)
   \<and> GetURLForID (Some epic_viewer) (Some sample_cvars)
         (epic_player\<lparr>Uid := 5, EpicAccountId := ''ffff''\<rparr>) = Inr ''''"
  using IsAllowed_policy_gating [of "Some epic_viewer" "Some sample_cvars" steam_player]
    IsAllowed_policy_gating [of "Some steam_player" "Some sample_cvars" steam_player]
    IsAllowed_policy_gating [of "Some epic_viewer" "Some sample_cvars" epic_player]
  by (simp add: steam_player_def epic_player_def epic_viewer_def sample_cvars_def
        flag_is_true_def local_viewer_on_steam_def cvar_names)

section \<open>Sanitised keys\<close>

lemma underscore_valid: "\<not> is_invalid_char CHR ''_''"
  by (simp add: is_invalid_char_def invalidChars_def char_below_32_def)

lemma has_invalid_char_iff: "has_invalid_char s \<longleftrightarrow> (\<exists>c\<in>set s. is_invalid_char c)"
  by (simp add: has_invalid_char_def list_ex_iff)

lemma SanitizeFilename_fixed: "\<not> has_invalid_char s \<Longrightarrow> SanitizeFilename s = s"
  by (induction s) (auto simp: SanitizeFilename_def has_invalid_char_def)

lemma SanitizeFilename_clean: "\<not> has_invalid_char (SanitizeFilename s)"
  using underscore_valid by (auto simp: SanitizeFilename_def has_invalid_char_iff)

lemma SanitizeFilename_changes: "has_invalid_char s \<Longrightarrow> SanitizeFilename s \<noteq> s"
  using SanitizeFilename_clean by metis

lemma SanitizeFilename_length: "length (SanitizeFilename s) = length s"
  by (simp add: SanitizeFilename_def)

lemma sanitize_char_eq:
  "(if is_invalid_char x then CHR ''_'' else x) = (if is_invalid_char y then CHR ''_'' else y)
     \<longleftrightarrow> x = y \<or> (becomes_underscore x \<and> becomes_underscore y)"
  using underscore_valid by (auto simp: becomes_underscore_def)

lemma SanitizeFilename_eq_iff:
  "SanitizeFilename s = SanitizeFilename t \<longleftrightarrow>
     length s = length t
     \<and> (\<forall>i<length s. s ! i = t ! i \<or> (becomes_underscore (s ! i) \<and> becomes_underscore (t ! i)))"
proof -
  have "SanitizeFilename s = SanitizeFilename t \<longleftrightarrow>
      length s = length t \<and> (\<forall>i<length s. SanitizeFilename s ! i = SanitizeFilename t ! i)"
    by (metis SanitizeFilename_length nth_equalityI)
  also have "\<dots> \<longleftrightarrow> length s = length t
     \<and> (\<forall>i<length s. s ! i = t ! i \<or> (becomes_underscore (s ! i) \<and> becomes_underscore (t ! i)))"
    by (simp add: SanitizeFilename_def sanitize_char_eq cong: conj_cong)
  finally show ?thesis .
qed

lemma filesystem_remove_Inr:
  "filesystem_remove h p w = Inr (w', rm) \<longleftrightarrow>
     \<not> remove_throws h p (files w) \<and> w' = w\<lparr>files := files w - {p}\<rparr>
     \<and> rm = [FilesystemRemove p (p \<in> files w)]"
  by (auto simp: filesystem_remove_def)

lemma filesystem_remove_Inl:
  "filesystem_remove h p w = Inl e \<longleftrightarrow> remove_throws h p (files w) \<and> e = FilesystemError"
  by (auto simp: filesystem_remove_def)

lemma write_load_cache_keys:
  "avatar_cache (fst (write_load_cache h nid idString bytes closing w)) = avatar_cache w
   \<or> (\<exists>t. avatar_cache (fst (write_load_cache h nid idString bytes closing w))
            = (avatar_cache w)(idString \<mapsto> Some t))"
  by (auto simp: write_load_cache_def Let_def filesystem_remove_def split: option.splits)

lemma write_load_cache_inv:
  "cache_keys_sanitized w \<Longrightarrow> \<not> has_invalid_char idString \<Longrightarrow>
     cache_keys_sanitized (fst (write_load_cache h nid idString bytes closing w))"
  using write_load_cache_keys [of h nid idString bytes closing w]
  by (auto simp: cache_keys_sanitized_def dom_def split: if_splits)

lemma LoadAvatar_inv:
  "cache_keys_sanitized w \<Longrightarrow> cache_keys_sanitized (fst (LoadAvatar h mgr nid bytes w))"
  using write_load_cache_inv [OF _ SanitizeFilename_clean]
  by (auto simp: LoadAvatar_def Let_def split_beta split: option.splits sum.splits)

lemma LoadAvatarDirect_inv:
  "cache_keys_sanitized w \<Longrightarrow> \<not> has_invalid_char idString \<Longrightarrow>
     cache_keys_sanitized (fst (LoadAvatarDirect h nid idString bytes force w))"
  using write_load_cache_inv
  by (auto simp: LoadAvatarDirect_def Let_def split_beta split: option.splits)

lemma filesystem_remove_inv:
  "cache_keys_sanitized w \<Longrightarrow> filesystem_remove h p w = Inr (w', rm) \<Longrightarrow> cache_keys_sanitized w'"
  by (auto simp: cache_keys_sanitized_def filesystem_remove_Inr)

lemma local_upload_done_inv:
  "cache_keys_sanitized w \<Longrightarrow>
     cache_keys_sanitized (fst (fst (local_upload_done h uniqueId dataCopy tempPath success w)))"
  using LoadAvatarDirect_inv [OF _ SanitizeFilename_clean, of w h uniqueId _ dataCopy True]
  by (auto simp: local_upload_done_def Let_def split_beta split: sum.splits
        dest: filesystem_remove_inv)

lemma invoke_callback_inv:
  "cache_keys_sanitized w \<Longrightarrow>
     cache_keys_sanitized
       (fst (fst (invoke_callback (Some (local_upload_done h u d p)) success w)))"
  using local_upload_done_inv [of w h u d p success]
  by (simp add: invoke_callback_def split_beta)

lemma upload_completed_inv:
  "cache_keys_sanitized w \<Longrightarrow>
     cache_keys_sanitized
       (fst (fst (upload_completed h fp (Some (local_upload_done h u d p)) code resp w)))"
  using invoke_callback_inv [of _ h u d p]
  by (auto simp: upload_completed_def Let_def split_beta split: sum.splits
        dest: filesystem_remove_inv)

lemma UploadToCDN_inv:
  "cache_keys_sanitized w \<Longrightarrow>
     cache_keys_sanitized
       (fst (fst (fst (UploadToCDN fp eid (Some (local_upload_done h u d p)) w))))"
  using invoke_callback_inv [of w h u d p False]
  by (simp add: UploadToCDN_def split_beta)

lemma files_update_inv:
  "cache_keys_sanitized w \<Longrightarrow> cache_keys_sanitized (w\<lparr>files := fs\<rparr>)"
  by (simp add: cache_keys_sanitized_def)

lemma AddLocalAvatar_inv:
  "cache_keys_sanitized w \<Longrightarrow> cache_keys_sanitized (fst (fst (AddLocalAvatar h mgr g file w)))"
  using LoadAvatarDirect_inv [OF _ SanitizeFilename_clean, of w h]
    UploadToCDN_inv [OF files_update_inv, of w _ _ h]
  by (auto simp: AddLocalAvatar_def Let_def split_beta split: option.splits sum.splits)

lemma RemoveLocalAvatar_inv:
  "cache_keys_sanitized w \<Longrightarrow> cache_keys_sanitized (fst (RemoveLocalAvatar h g w))"
  by (auto simp: RemoveLocalAvatar_def Let_def cache_keys_sanitized_def dom_def split: if_splits)

lemma download_completed_inv:
  "cache_keys_sanitized w \<Longrightarrow>
     cache_keys_sanitized (fst (download_completed (Some (LoadAvatar h mgr)) nid code ptr sz w))"
  using LoadAvatar_inv [of w h mgr nid]
  by (simp add: download_completed_def Let_def split_beta)

lemma reachable_keys_sanitized: "reachable h w \<Longrightarrow> cache_keys_sanitized w"
proof (induction rule: reachable.induct)
  case (start fs)
  then show ?case by (simp add: cache_keys_sanitized_def)
next
  case (cleared w)
  then show ?case by (simp add: cache_keys_sanitized_def ClearCache_def)
qed (simp_all add: LoadAvatar_inv download_completed_inv AddLocalAvatar_inv upload_completed_inv
       RemoveLocalAvatar_inv files_update_inv)

section \<open>Remote load and download completion\<close>

text \<open>
  Claim C2.  When the PRI passed to \<^verbatim>\<open>LoadForPRI\<close> carries the local player's
  identity (same Uid, same Epic account id string), the call only logs: it calls neither
  entry point of the downloader and sends no request.
\<close>

theorem LoadForPRI_never_fetches_local:
  assumes "local_identity pc = Some l" and "pri = Some p"
    and "Uid l = Uid (UniqueId p)" and "EpicAccountId l = EpicAccountId (UniqueId p)"
  shows "LoadForPRI h pc pri w = [LogDebug] \<and> filter is_fetch (LoadForPRI h pc pri w) = []"
  using assms
  by (auto simp: LoadForPRI_def local_identity_def Let_def split: option.splits)

theorem LoadForPRI_never_fetches_local_witness:
  "local_identity (Some \<lparr>PRI = Some \<lparr>UniqueId = epic_viewer, PlayerName = ''me''\<rparr>\<rparr>)
     = Some epic_viewer
   \<and> LoadForPRI (sample_host ''|'')
        (Some \<lparr>PRI = Some \<lparr>UniqueId = epic_viewer, PlayerName = ''me''\<rparr>\<rparr>)
        (Some \<lparr>UniqueId = epic_viewer, PlayerName = ''me''\<rparr>) empty_world = [LogDebug]
   \<and> filter is_fetch (LoadForPRI (sample_host ''|'')
        (Some \<lparr>PRI = Some \<lparr>UniqueId = epic_viewer, PlayerName = ''me''\<rparr>\<rparr>)
        (Some \<lparr>UniqueId = epic_viewer, PlayerName = ''me''\<rparr>) empty_world) = []"
proof -
  have l: "local_identity (Some \<lparr>PRI = Some \<lparr>UniqueId = epic_viewer, PlayerName = ''me''\<rparr>\<rparr>)
     = Some epic_viewer"
    by (simp add: local_identity_def)
  show ?thesis
    using l LoadForPRI_never_fetches_local [OF l, of
        "Some \<lparr>UniqueId = epic_viewer, PlayerName = ''me''\<rparr>"
        "\<lparr>UniqueId = epic_viewer, PlayerName = ''me''\<rparr>" "sample_host ''|''" empty_world]
    by simp
qed

lemma LoadForPRI_remote_fetches:
  "LoadForPRI (sample_host ''|'')
        (Some \<lparr>PRI = Some \<lparr>UniqueId = epic_viewer, PlayerName = ''me''\<rparr>\<rparr>)
        (Some \<lparr>UniqueId = steam_player, PlayerName = ''you''\<rparr>) empty_world
     = [LogDebug, DownloadAvatarCall steam_player]"
  by (simp add: LoadForPRI_def Let_def epic_viewer_def steam_player_def GetCachedAvatar_def
        empty_world_def)

text \<open>
  Claim C3.  The completion of a download hands the payload to the load callback exactly
  when the status is 200, the payload pointer is not null and the size is not zero; the
  callback then runs once on the received bytes.  In every other case the completion
  returns after two debug lines whatever the callback is: the world, and so the cache, is
  as before, nothing is applied or normalised, and no request is issued again.
\<close>

theorem download_completed_outcome:
  "(http_code = 200 \<and> data_ptr \<noteq> None \<and> data_size \<noteq> 0 \<longrightarrow>
      download_completed (Some f) nid http_code data_ptr data_size w =
        (fst (f nid (take data_size (the data_ptr)) w),
         [LogDebug, LogSuccess] @ snd (f nid (take data_size (the data_ptr)) w)))
   \<and> (\<not> (http_code = 200 \<and> data_ptr \<noteq> None \<and> data_size \<noteq> 0) \<longrightarrow>
      download_completed cb nid http_code data_ptr data_size w = (w, [LogDebug, LogDebug])
      \<and> avatar_cache (fst (download_completed cb nid http_code data_ptr data_size w))
          = avatar_cache w
      \<and> filter is_apply (snd (download_completed cb nid http_code data_ptr data_size w)) = []
      \<and> filter is_normalize (snd (download_completed cb nid http_code data_ptr data_size w)) = []
      \<and> filter is_fetch (snd (download_completed cb nid http_code data_ptr data_size w)) = [])"
  by (auto simp: download_completed_def Let_def split_beta)

lemma toy_reencode:
  "BrightenImage (sample_host sep) [1, 1, 3, 10, 20, 30] (Some False) = Inr [1, 1, 3, 10, 20, 30]"
  by (simp add: BrightenImage_def reencode_unchanged_def sample_host_def toy_decode_def
        toy_encode_def Let_def)

lemma steam_player_key:
  "SanitizeFilename (UniqueNetIdToString (sample_host ''|'') steam_player)
     = ''Steam_76561198000000001''"
  by (simp add: sample_host_def sample_id_string_def steam_player_def to_string.simps
        digit_char_def SanitizeFilename_def is_invalid_char_def invalidChars_def
        char_below_32_def)

lemma sample_brightness: "GetBrightnessEnabled (Some sample_cvars) = (Some False, [])"
  by (simp add: GetBrightnessEnabled_def sample_cvars_def cvar_names)

lemma LoadAvatar_sample:
  "LoadAvatar (sample_host ''|'') (Some sample_cvars) steam_player [1, 1, 3, 10, 20, 30] empty_world
     = (\<lparr>avatar_cache = [''Steam_76561198000000001'' \<mapsto> Some 7], files = {}\<rparr>,
        [LogDebug, BrightenImageCall [1, 1, 3, 10, 20, 30] (Some False), LogDebug, LogDebug,
         FilesystemRemove (GetTempAvatarPath ''Steam_76561198000000001'') True,
         SetAvatar steam_player (Some 7)])"
  by (simp add: LoadAvatar_def steam_player_key sample_brightness toy_reencode Let_def
        write_load_cache_def filesystem_remove_def empty_world_def)
     (simp add: sample_host_def eval_nat_numeral)

theorem download_completed_outcome_witness:
  "download_completed (Some (LoadAvatar (sample_host ''|'') (Some sample_cvars))) steam_player
       200 (Some [1, 1, 3, 10, 20, 30]) 6 empty_world
     = (\<lparr>avatar_cache = [''Steam_76561198000000001'' \<mapsto> Some 7], files = {}\<rparr>,
        [LogDebug, LogSuccess, LogDebug, BrightenImageCall [1, 1, 3, 10, 20, 30] (Some False),
         LogDebug, LogDebug,
         FilesystemRemove (GetTempAvatarPath ''Steam_76561198000000001'') True,
         SetAvatar steam_player (Some 7)])
   \<and> download_completed (Some (LoadAvatar (sample_host ''|'') (Some sample_cvars))) steam_player
       404 (Some [1, 1, 3, 10, 20, 30]) 6 empty_world = (empty_world, [LogDebug, LogDebug])
   \<and> download_completed (Some (LoadAvatar (sample_host ''|'') (Some sample_cvars))) steam_player
       200 (Some []) 0 empty_world = (empty_world, [LogDebug, LogDebug])
   \<and> download_completed (Some (LoadAvatar (sample_host ''|'') (Some sample_cvars))) steam_player
       200 None 6 empty_world = (empty_world, [LogDebug, LogDebug])"
  using download_completed_outcome [of 200 "Some [1, 1, 3, 10, 20, 30]" 6
      "LoadAvatar (sample_host ''|'') (Some sample_cvars)" steam_player empty_world]
    download_completed_outcome [of 404 "Some [1, 1, 3, 10, 20, 30]" 6 _ steam_player empty_world
      "Some (LoadAvatar (sample_host ''|'') (Some sample_cvars))"]
    download_completed_outcome [of 200 "Some []" 0 _ steam_player empty_world
      "Some (LoadAvatar (sample_host ''|'') (Some sample_cvars))"]
    download_completed_outcome [of 200 None 6 _ steam_player empty_world
      "Some (LoadAvatar (sample_host ''|'') (Some sample_cvars))"]
  by (simp add: LoadAvatar_sample)

section \<open>Key derivation and the two cache keys\<close>

lemma GetCachedAvatar_raw_key:
  assumes "cache_keys_sanitized w" and "has_invalid_char s"
  shows "avatar_cache w s = None" and "GetCachedAvatar w s = None"
    and "(avatar_cache w)(s := None) = avatar_cache w"
proof -
  show n: "avatar_cache w s = None"
    using assms by (auto simp: cache_keys_sanitized_def dom_def)
  show "GetCachedAvatar w s = None"
    by (simp add: GetCachedAvatar_def n)
  show "(avatar_cache w)(s := None) = avatar_cache w"
    using n by (simp add: fun_upd_idem)
qed

lemma LoadForPRI_no_apply_on_miss:
  "GetCachedAvatar w (UniqueNetIdToString h (UniqueId p)) = None \<Longrightarrow>
     filter is_apply (LoadForPRI h pc (Some p) w) = []"
  by (auto simp: LoadForPRI_def Let_def split: option.splits)

lemma RemoveLocalAvatar_raw_key:
  assumes "cache_keys_sanitized w" and "PrimaryPlayerID g = Some nid"
    and "has_invalid_char (UniqueNetIdToString h nid)"
  shows "avatar_cache (fst (RemoveLocalAvatar h g w)) = avatar_cache w"
  using GetCachedAvatar_raw_key(3) [OF assms(1,3)] assms(2)
  by (simp add: RemoveLocalAvatar_def Let_def)

text \<open>
  Claim C10.  \<^verbatim>\<open>LoadAvatar\<close> caches under the sanitised id string, while
  \<^verbatim>\<open>LoadForPRI\<close> looks up and \<^verbatim>\<open>RemoveLocalAvatar\<close> erases under the id string as
  it is.  In every reachable world, for an identity whose id string holds a character of
  \<^verbatim>\<open><>:"|?*\/\<close> or one that compares below 32: the two keys differ; after
  \<^verbatim>\<open>LoadAvatar\<close> for that identity the lookup of \<^verbatim>\<open>LoadForPRI\<close> finds nothing
  and applies nothing; and \<^verbatim>\<open>RemoveLocalAvatar\<close> for that identity leaves the cache
  as it is.  For an identity whose id string holds no such character the two keys are equal.
\<close>

theorem raw_key_never_finds_sanitized_entry:
  assumes "reachable h w"
  shows "(has_invalid_char (UniqueNetIdToString h nid) \<longrightarrow>
            cache_key h nid \<noteq> UniqueNetIdToString h nid
          \<and> GetCachedAvatar (fst (LoadAvatar h mgr nid bytes w)) (UniqueNetIdToString h nid) = None
          \<and> filter is_apply (LoadForPRI h pc (Some \<lparr>UniqueId = nid, PlayerName = name\<rparr>)
                               (fst (LoadAvatar h mgr nid bytes w))) = []
          \<and> (PrimaryPlayerID g = Some nid \<longrightarrow>
               avatar_cache (fst (RemoveLocalAvatar h g (fst (LoadAvatar h mgr nid bytes w))))
                 = avatar_cache (fst (LoadAvatar h mgr nid bytes w))))
       \<and> (\<not> has_invalid_char (UniqueNetIdToString h nid) \<longrightarrow>
            cache_key h nid = UniqueNetIdToString h nid)"
proof -
  have inv: "cache_keys_sanitized (fst (LoadAvatar h mgr nid bytes w))"
    using assms by (simp add: reachable_keys_sanitized LoadAvatar_inv)
  show ?thesis
  proof (intro conjI impI)
    assume bad: "has_invalid_char (UniqueNetIdToString h nid)"
    show "cache_key h nid \<noteq> UniqueNetIdToString h nid"
      using bad by (simp add: cache_key_def SanitizeFilename_changes)
    show miss: "GetCachedAvatar (fst (LoadAvatar h mgr nid bytes w)) (UniqueNetIdToString h nid) = None"
      by (rule GetCachedAvatar_raw_key(2) [OF inv bad])
    show "filter is_apply (LoadForPRI h pc (Some \<lparr>UniqueId = nid, PlayerName = name\<rparr>)
                               (fst (LoadAvatar h mgr nid bytes w))) = []"
      by (rule LoadForPRI_no_apply_on_miss) (simp add: miss)
    show "avatar_cache (fst (RemoveLocalAvatar h g (fst (LoadAvatar h mgr nid bytes w))))
                 = avatar_cache (fst (LoadAvatar h mgr nid bytes w))"
      if "PrimaryPlayerID g = Some nid"
      by (rule RemoveLocalAvatar_raw_key [OF inv that bad])
  next
    assume "\<not> has_invalid_char (UniqueNetIdToString h nid)"
    then show "cache_key h nid = UniqueNetIdToString h nid"
      by (simp add: cache_key_def SanitizeFilename_fixed)
  qed
qed

lemma steam_player_raw:
  "UniqueNetIdToString (sample_host ''|'') steam_player = ''Steam|76561198000000001''"
  "UniqueNetIdToString (sample_host ''-'') steam_player = ''Steam-76561198000000001''"
  by (simp_all add: sample_host_def sample_id_string_def steam_player_def to_string.simps
        digit_char_def)

lemma steam_player_raw_invalid:
  "has_invalid_char ''Steam|76561198000000001''"
  "\<not> has_invalid_char ''Steam-76561198000000001''"
  by (simp_all add: has_invalid_char_def is_invalid_char_def invalidChars_def char_below_32_def)

theorem raw_key_never_finds_sanitized_entry_witness:
  "reachable (sample_host ''|'') empty_world
   \<and> has_invalid_char (UniqueNetIdToString (sample_host ''|'') steam_player)
   \<and> avatar_cache (fst (LoadAvatar (sample_host ''|'') (Some sample_cvars) steam_player
                          [1, 1, 3, 10, 20, 30] empty_world))
        (cache_key (sample_host ''|'') steam_player) = Some (Some 7)
   \<and> GetCachedAvatar (fst (LoadAvatar (sample_host ''|'') (Some sample_cvars) steam_player
                            [1, 1, 3, 10, 20, 30] empty_world))
        (UniqueNetIdToString (sample_host ''|'') steam_player) = None
   \<and> avatar_cache (fst (RemoveLocalAvatar (sample_host ''|'')
        \<lparr>PlayerController_present = True, VanitySetManager_present = True,
         PrimaryPlayerID = Some steam_player, GetAvatar_present = True\<rparr>
        (fst (LoadAvatar (sample_host ''|'') (Some sample_cvars) steam_player
               [1, 1, 3, 10, 20, 30] empty_world))))
       = [''Steam_76561198000000001'' \<mapsto> Some 7]
   \<and> reachable (sample_host ''-'') empty_world
   \<and> \<not> has_invalid_char (UniqueNetIdToString (sample_host ''-'') steam_player)
   \<and> cache_key (sample_host ''-'') steam_player
        = UniqueNetIdToString (sample_host ''-'') steam_player"
proof -
  have r: "reachable (sample_host sep) empty_world" for sep
    unfolding empty_world_def by (rule reachable.start)
  show ?thesis
    using r [of "''|''"] r [of "''-''"]
      raw_key_never_finds_sanitized_entry [OF r [of "''|''"], of steam_player
        "Some sample_cvars" "[1, 1, 3, 10, 20, 30]" None "''x''"
        "\<lparr>PlayerController_present = True, VanitySetManager_present = True,
         PrimaryPlayerID = Some steam_player, GetAvatar_present = True\<rparr>"]
      raw_key_never_finds_sanitized_entry [OF r [of "''-''"], of steam_player
        "Some sample_cvars" "[1, 1, 3, 10, 20, 30]" None "''x''"
        "\<lparr>PlayerController_present = True, VanitySetManager_present = True,
         PrimaryPlayerID = Some steam_player, GetAvatar_present = True\<rparr>"]
    by (simp add: steam_player_raw steam_player_raw_invalid LoadAvatar_sample cache_key_def
          steam_player_key [unfolded steam_player_raw])
qed

text \<open>
  Claim C8, as amended.  The key is a function of the id string alone, so deriving it again
  gives the same key.  Two identities get the same key exactly when their id strings have
  the same length and, at every position, hold the same character or two characters that
  both become an underscore.  Id strings without invalid characters that differ get
  different keys.
\<close>

theorem cache_key_collision_iff:
  "(cache_key h a = cache_key h b \<longleftrightarrow>
      length (UniqueNetIdToString h a) = length (UniqueNetIdToString h b)
      \<and> (\<forall>i < length (UniqueNetIdToString h a).
            UniqueNetIdToString h a ! i = UniqueNetIdToString h b ! i
            \<or> (becomes_underscore (UniqueNetIdToString h a ! i)
               \<and> becomes_underscore (UniqueNetIdToString h b ! i))))
   \<and> (\<not> has_invalid_char (UniqueNetIdToString h a)
        \<and> \<not> has_invalid_char (UniqueNetIdToString h b) \<longrightarrow>
        (cache_key h a = cache_key h b \<longleftrightarrow> UniqueNetIdToString h a = UniqueNetIdToString h b))"
  by (simp add: cache_key_def SanitizeFilename_eq_iff [symmetric] SanitizeFilename_fixed)

text \<open>
  The claim as stated fails: two Epic identities whose account ids differ in one character,
  a colon against an underscore, get the same key.
\<close>

theorem cache_key_not_injective:
  "EpicAccountId \<lparr>Uid = 0, EpicAccountId = ''a:b'', Platform = OnlinePlatform_Epic\<rparr>
     \<noteq> EpicAccountId \<lparr>Uid = 0, EpicAccountId = ''a_b'', Platform = OnlinePlatform_Epic\<rparr>
   \<and> cache_key (sample_host ''|'') \<lparr>Uid = 0, EpicAccountId = ''a:b'', Platform = OnlinePlatform_Epic\<rparr>
     = cache_key (sample_host ''|'') \<lparr>Uid = 0, EpicAccountId = ''a_b'', Platform = OnlinePlatform_Epic\<rparr>"
  by (simp add: cache_key_def sample_host_def sample_id_string_def SanitizeFilename_def
        is_invalid_char_def invalidChars_def char_below_32_def)

lemma epic_raw:
  "UniqueNetIdToString (sample_host ''-'') epic_player = ''Epic-abc123''"
  "UniqueNetIdToString (sample_host ''-'') epic_viewer = ''Epic-0f0f''"
  by (simp_all add: sample_host_def sample_id_string_def epic_player_def epic_viewer_def)

theorem cache_key_collision_iff_witness:
  "\<not> has_invalid_char (UniqueNetIdToString (sample_host ''-'') epic_player)
   \<and> \<not> has_invalid_char (UniqueNetIdToString (sample_host ''-'') epic_viewer)
   \<and> cache_key (sample_host ''-'') epic_player \<noteq> cache_key (sample_host ''-'') epic_viewer
   \<and> cache_key (sample_host ''-'') epic_player = ''Epic-abc123''"
  using cache_key_collision_iff [of "sample_host ''-''" epic_player epic_viewer]
  by (simp add: epic_raw has_invalid_char_def is_invalid_char_def invalidChars_def
        char_below_32_def cache_key_def SanitizeFilename_def)

section \<open>The gamma table\<close>

lemma gamma_bounds: "14 / 31 \<le> GAMMA_CORRECTION_EXPONENT" "GAMMA_CORRECTION_EXPONENT \<le> 5 / 11"
  "0 < GAMMA_CORRECTION_EXPONENT" "GAMMA_CORRECTION_EXPONENT < 1"
  by (simp_all add: GAMMA_CORRECTION_EXPONENT_def)

text \<open>The scaled power of a byte lies between the byte and 255.\<close>

lemma scaled_power_range:
  fixes n :: nat
  assumes "n \<le> 255"
  shows "real n \<le> powf (real n / 255) GAMMA_CORRECTION_EXPONENT * 255"
    and "powf (real n / 255) GAMMA_CORRECTION_EXPONENT * 255 \<le> 255"
proof -
  let ?x = "real n / 255"
  have x: "0 \<le> ?x" "?x \<le> 1" using assms by simp_all
  have "?x powr 1 \<le> ?x powr GAMMA_CORRECTION_EXPONENT"
    using gamma_bounds(4) x by (intro powr_mono') simp_all
  moreover have "?x powr 1 = ?x" using x by simp
  ultimately have "?x \<le> ?x powr GAMMA_CORRECTION_EXPONENT" by simp
  then show "real n \<le> powf ?x GAMMA_CORRECTION_EXPONENT * 255"
    by (simp add: powf_def)
  have "?x powr GAMMA_CORRECTION_EXPONENT \<le> 1"
    using gamma_bounds(3) x by (intro powr_le1) simp_all
  then show "powf ?x GAMMA_CORRECTION_EXPONENT * 255 \<le> 255"
    by (simp add: powf_def)
qed

lemma unat_uint8_cast:
  assumes "0 \<le> r" and "r \<le> 255"
  shows "unat (uint8_cast r) = nat \<lfloor>r\<rfloor>"
proof -
  have f: "0 \<le> \<lfloor>r\<rfloor>" "\<lfloor>r\<rfloor> \<le> 255"
    using assms by (simp_all add: floor_le_iff)
  have "uint (word_of_int \<lfloor>r\<rfloor> :: 8 word) = \<lfloor>r\<rfloor>"
    using f by (simp add: uint_word_of_int take_bit_int_eq_self)
  then show ?thesis
    using assms by (simp add: uint8_cast_def unat_eq_nat_uint)
qed

lemma unat_byte_le: "unat (v :: byte) \<le> 255"
  using unsigned_less [of v, where ?'a = nat] by simp

lemma unat_srgb_lookup:
  "unat (srgb_lookup v)
     = nat \<lfloor>255 * (real (unat v) / 255) powr GAMMA_CORRECTION_EXPONENT\<rfloor>"
proof -
  let ?y = "powf (real (unat v) / 255) GAMMA_CORRECTION_EXPONENT * 255"
  have "real (unat v) \<le> ?y" "?y \<le> 255"
    using scaled_power_range [OF unat_byte_le [of v]] by simp_all
  then have "unat (uint8_cast ?y) = nat \<lfloor>?y\<rfloor>"
    by (intro unat_uint8_cast) linarith+
  then show ?thesis
    by (simp add: srgb_lookup_def powf_def mult.commute)
qed

lemma srgb_lookup_brightens: "unat v \<le> unat (srgb_lookup v)"
proof -
  let ?y = "255 * (real (unat v) / 255) powr GAMMA_CORRECTION_EXPONENT"
  have "real (unat v) \<le> ?y"
    using scaled_power_range(1) [OF unat_byte_le [of v]] by (simp add: powf_def mult.commute)
  then have "int (unat v) \<le> \<lfloor>?y\<rfloor>"
    by (simp add: le_floor_iff)
  then show ?thesis
    by (simp add: unat_srgb_lookup le_nat_iff)
qed

lemma srgb_lookup_0: "srgb_lookup 0 = 0"
  by (simp add: srgb_lookup_def powf_def uint8_cast_def)

lemma srgb_lookup_255: "srgb_lookup 255 = 255"
  by (simp add: srgb_lookup_def powf_def uint8_cast_def)

text \<open>The entry for 1: the scaled power lies between 20.5 and 21.\<close>

lemma scaled_power_1:
  "41 / 2 \<le> 255 * (1 / 255) powr GAMMA_CORRECTION_EXPONENT"
  "255 * (1 / 255) powr GAMMA_CORRECTION_EXPONENT < 21"
proof -
  let ?g = GAMMA_CORRECTION_EXPONENT
  have eq: "255 * (1 / 255) powr ?g = (255 :: real) powr (1 - ?g)"
    by (simp add: powr_diff powr_divide)
  have "(41 / 2 :: real) ^ 11 \<le> 255 ^ 6" by (simp add: power_divide divide_le_eq)
  also have "\<dots> = ((255 :: real) powr (6 / 11)) ^ 11"
    by (simp add: powr_power)
  finally have "(41 / 2 :: real) \<le> 255 powr (6 / 11)"
    by (rule power_le_imp_le_base [of _ 10, simplified]) simp
  also have "\<dots> \<le> 255 powr (1 - ?g)"
    using gamma_bounds(2) by (intro powr_mono) simp_all
  finally show "41 / 2 \<le> 255 * (1 / 255) powr ?g" by (simp add: eq)
  have le: "(255 :: real) powr (1 - ?g) \<le> 255 powr (17 / 31)"
    using gamma_bounds(1) by (intro powr_mono) simp_all
  have lt: "(255 :: real) powr (17 / 31) < 21"
  proof (rule power_less_imp_less_base [of _ 31])
    have "((255 :: real) powr (17 / 31)) ^ 31 = 255 ^ 17"
      by (simp add: powr_power)
    also have "\<dots> < (21 :: real) ^ 31" by simp
    finally show "((255 :: real) powr (17 / 31)) ^ 31 < 21 ^ 31" .
  qed simp
  from le lt have "(255 :: real) powr (1 - ?g) < 21"
    by (rule le_less_trans)
  then show "255 * (1 / 255) powr ?g < 21" by (simp only: eq)
qed

lemma srgb_lookup_1: "srgb_lookup 1 = 20"
proof -
  have "\<lfloor>255 * (1 / 255) powr GAMMA_CORRECTION_EXPONENT\<rfloor> = 20"
    using scaled_power_1 by (simp add: floor_eq_iff)
  then have "unat (srgb_lookup 1) = 20"
    by (simp add: unat_srgb_lookup)
  then show ?thesis
    by (simp add: word_unat_eq_iff)
qed
section \<open>The pixel loops\<close>

lemma gamma_channels_length [simp]: "length (gamma_channels buf ch i c) = length buf"
proof (induction buf ch i c rule: gamma_channels.induct)
  case (1 buf channels i c)
  then show ?case
    by (subst gamma_channels.simps) (simp add: Let_def)
qed

lemma gamma_channels_nth:
  "j < length buf \<Longrightarrow>
     gamma_channels buf ch i c ! j =
       (if i * ch + c \<le> j \<and> j < i * ch + ch \<and> j < i * ch + 3
        then srgb_lookup (buf ! j) else buf ! j)"
proof (induction buf ch i c rule: gamma_channels.induct)
  case (1 buf channels i c)
  show ?case
  proof (cases "c < channels")
    case False
    have "gamma_channels buf channels i c = buf"
      using False by (subst gamma_channels.simps) simp
    moreover have "\<not> (i * channels + c \<le> j \<and> j < i * channels + channels)"
      using False by linarith
    ultimately show ?thesis by auto
  next
    case True
    let ?buf' = "if c < 3 then (let pixelIndex = i * channels + c
                    in buf[pixelIndex := srgb_lookup (buf ! pixelIndex)]) else buf"
    have len: "j < length ?buf'" using "1.prems" by (simp add: Let_def)
    have ih: "gamma_channels ?buf' channels i (c + 1) ! j =
       (if i * channels + (c + 1) \<le> j \<and> j < i * channels + channels \<and> j < i * channels + 3
        then srgb_lookup (?buf' ! j) else ?buf' ! j)"
      using "1.IH" [OF True len] .
    have step: "gamma_channels buf channels i c = gamma_channels ?buf' channels i (c + 1)"
      using True by (subst gamma_channels.simps) simp
    show ?thesis
    proof (cases "j = i * channels + c")
      case here: True
      then show ?thesis
        unfolding step ih using "1.prems" True by (auto simp: Let_def)
    next
      case False
      then show ?thesis
        unfolding step ih using "1.prems" True by (auto simp: Let_def nth_list_update)
    qed
  qed
qed

lemma gamma_pixels_length [simp]: "length (gamma_pixels buf ch n i) = length buf"
proof (induction buf ch n i rule: gamma_pixels.induct)
  case (1 buf channels n i)
  then show ?case
    by (subst gamma_pixels.simps) simp
qed

lemma pixel_index_mod:
  fixes ch :: nat
  assumes "i * ch \<le> j" and "j < i * ch + ch"
  shows "j mod ch = j - i * ch" and "j div ch = i"
proof -
  obtain c where c: "j = i * ch + c" "c < ch"
    using assms by (metis le_Suc_ex nat_add_left_cancel_less)
  then show "j mod ch = j - i * ch" and "j div ch = i"
    by simp_all
qed

lemma gamma_pixels_nth:
  "0 < ch \<Longrightarrow> j < length buf \<Longrightarrow>
     gamma_pixels buf ch n i ! j =
       (if i * ch \<le> j \<and> j < n * ch \<and> j mod ch < 3
        then srgb_lookup (buf ! j) else buf ! j)"
proof (induction buf ch n i rule: gamma_pixels.induct)
  case (1 buf channels n i)
  show ?case
  proof (cases "i < n")
    case False
    then have "n * channels \<le> i * channels" by simp
    then have "\<not> (i * channels \<le> j \<and> j < n * channels)" by linarith
    moreover have "gamma_pixels buf channels n i = buf"
      using False by (subst gamma_pixels.simps) simp
    ultimately show ?thesis by auto
  next
    case True
    let ?buf' = "gamma_channels buf channels i 0"
    have ih: "gamma_pixels ?buf' channels n (i + 1) ! j =
       (if (i + 1) * channels \<le> j \<and> j < n * channels \<and> j mod channels < 3
        then srgb_lookup (?buf' ! j) else ?buf' ! j)"
      using "1.IH" [OF True "1.prems"(1)] "1.prems"(2) by simp
    have step: "gamma_pixels buf channels n i = gamma_pixels ?buf' channels n (i + 1)"
      using True by (subst gamma_pixels.simps) simp
    have inner: "?buf' ! j =
       (if i * channels \<le> j \<and> j < i * channels + channels \<and> j < i * channels + 3
        then srgb_lookup (buf ! j) else buf ! j)"
      using gamma_channels_nth [OF "1.prems"(2), of channels i 0] by simp
    have bound: "i * channels + channels \<le> n * channels"
      using True by (metis Suc_leI mult_Suc mult_le_mono1 add.commute)
    show ?thesis
    proof (cases "i * channels \<le> j \<and> j < i * channels + channels")
      case here: True
      then have m: "j mod channels = j - i * channels"
        using pixel_index_mod(1) by blast
      have "j mod channels < 3 \<longleftrightarrow> j < i * channels + 3"
        using here m by auto
      then show ?thesis
        unfolding step ih inner using here bound by auto
    next
      case False
      then show ?thesis
        unfolding step ih inner by auto
    qed
  qed
qed

lemma gamma_pixels_by_channel:
  assumes "c < ch" and "p < n" and "n * ch \<le> length buf"
  shows "gamma_pixels buf ch n 0 ! (p * ch + c) =
           (if c < 3 then srgb_lookup (buf ! (p * ch + c)) else buf ! (p * ch + c))"
proof -
  have "p * ch + c < p * ch + ch" using assms(1) by simp
  also have "\<dots> \<le> n * ch"
    using assms(2) by (metis Suc_leI mult_Suc mult_le_mono1 add.commute)
  finally have lt: "p * ch + c < n * ch" .
  then have j: "p * ch + c < length buf" using assms(3) by simp
  have "0 < ch" using assms(1) by simp
  then show ?thesis
    using gamma_pixels_nth [OF _ j, of ch n 0] lt assms(1) by simp
qed

section \<open>Brightness\<close>

text \<open>
  Claim C6.  The table never darkens: every byte is mapped to a byte at least as large, 255
  is mapped to 255 and 0 to 0.
\<close>

theorem srgb_lookup_never_darkens:
  "unat v \<le> unat (srgb_lookup v) \<and> srgb_lookup 255 = 255 \<and> srgb_lookup 0 = 0"
  by (simp add: srgb_lookup_brightens srgb_lookup_0 srgb_lookup_255)

text \<open>
  The claim C5 as stated fails: the cast to \<^verbatim>\<open>uint8_t\<close> truncates, it does not round.
  For the input 1 the scaled power is about 20.54: the table holds 20, the formula with
  \<open>round\<close> gives 21.
\<close>

theorem srgb_lookup_truncates_where_spec_rounds:
  "unat (srgb_lookup 1) = 20 \<and> spec_round_gamma 1 = 21"
proof -
  have "\<lfloor>255 * (1 / 255) powr GAMMA_CORRECTION_EXPONENT + 1 / 2\<rfloor> = 21"
    using scaled_power_1 by (simp add: floor_eq_iff)
  then show ?thesis
    by (simp add: srgb_lookup_1 spec_round_gamma_def round_def)
qed

lemma gamma_brighten_decoded:
  assumes "stbi_load_from_memory h png 0 = Some img" and "0 < img_channels img"
  shows "gamma_brighten h png =
     (case stbi_write_png_to_func h (img_width img) (img_height img) (img_channels img)
             (gamma_pixels (img_data img) (img_channels img)
                (img_width img * img_height img) 0) of
        None \<Rightarrow> Inl EncodeFailed
      | Some recompressedData \<Rightarrow> Inr recompressedData)"
  using assms by (simp add: gamma_brighten_def Let_def)

text \<open>
  Claim C5, as amended.  With brightness enabled and an image decoded to at least one
  channel, the encoder receives the decoded buffer in which every byte of the first
  three channels of every pixel is replaced by its table entry and every byte of a
  fourth channel is as decoded; the table entry of a byte is the scaled power truncated
  towards zero, \<open>\<lfloor>255 * (input/255) ^ gamma\<rfloor>\<close>.
\<close>

theorem BrightenImage_maps_rgb_by_truncation:
  assumes "stbi_load_from_memory h png 0 = Some img"
    and "0 < img_channels img"
    and "length (img_data img) = img_width img * img_height img * img_channels img"
  shows "BrightenImage h png (Some True) =
           (case stbi_write_png_to_func h (img_width img) (img_height img) (img_channels img)
                   (gamma_pixels (img_data img) (img_channels img)
                      (img_width img * img_height img) 0) of
              None \<Rightarrow> Inl EncodeFailed
            | Some recompressedData \<Rightarrow> Inr recompressedData)
         \<and> length (gamma_pixels (img_data img) (img_channels img)
                      (img_width img * img_height img) 0) = length (img_data img)
         \<and> (\<forall>p < img_width img * img_height img. \<forall>c < img_channels img.
               gamma_pixels (img_data img) (img_channels img)
                   (img_width img * img_height img) 0 ! (p * img_channels img + c)
                 = (if c < 3 then srgb_lookup (img_data img ! (p * img_channels img + c))
                    else img_data img ! (p * img_channels img + c)))
         \<and> (\<forall>v. unat (srgb_lookup v)
                 = nat \<lfloor>255 * (real (unat v) / 255) powr GAMMA_CORRECTION_EXPONENT\<rfloor>)"
  using assms
  by (simp add: BrightenImage_def gamma_brighten_decoded gamma_pixels_by_channel
        unat_srgb_lookup)

lemma gamma_pixels_sample: "gamma_pixels [1, 255, 0, 77] 4 (Suc 0) 0 = [20, 255, 0, 77]"
  by (simp add: gamma_pixels.simps gamma_channels.simps srgb_lookup_1 srgb_lookup_0
        srgb_lookup_255 Let_def)

lemma toy_decode_rgba:
  "stbi_load_from_memory (sample_host sep) [1, 1, 4, 1, 255, 0, 77] 0
     = Some \<lparr>img_width = 1, img_height = 1, img_channels = 4, img_data = [1, 255, 0, 77]\<rparr>"
  by (simp add: sample_host_def toy_decode_def)

lemma toy_encode_rgba:
  "stbi_write_png_to_func (sample_host sep) wd ht ch px
     = Some (of_nat wd # of_nat ht # of_nat ch # px)"
  by (simp add: sample_host_def toy_encode_def)

theorem BrightenImage_maps_rgb_by_truncation_witness:
  "stbi_load_from_memory (sample_host ''|'') [1, 1, 4, 1, 255, 0, 77] 0
     = Some \<lparr>img_width = 1, img_height = 1, img_channels = 4, img_data = [1, 255, 0, 77]\<rparr>
   \<and> BrightenImage (sample_host ''|'') [1, 1, 4, 1, 255, 0, 77] (Some True)
       = Inr [1, 1, 4, 20, 255, 0, 77]
   \<and> unat (srgb_lookup 77)
       = nat \<lfloor>255 * (real (unat (77 :: byte)) / 255) powr GAMMA_CORRECTION_EXPONENT\<rfloor>"
  using BrightenImage_maps_rgb_by_truncation [OF toy_decode_rgba [of "''|''"]]
  by (simp add: toy_decode_rgba toy_encode_rgba gamma_pixels_sample)

text \<open>
  Claim C9.  \<^verbatim>\<open>GetBrightnessEnabled\<close> returns a null pointer exactly when the CVar
  manager or the brightness CVar is missing.  With a null flag \<^verbatim>\<open>BrightenImage\<close>
  takes the gamma path, as it does for a flag that is true; only a flag that is present and
  false takes the path that re-encodes the pixels unchanged.
\<close>

theorem BrightenImage_null_flag_brightens:
  "(fst (GetBrightnessEnabled mgr) = None \<longleftrightarrow>
      mgr = None \<or> (\<exists>m. mgr = Some m \<and> m CVAR_BRIGHTNESS_ADJUSTMENT_ENABLED = None))
   \<and> BrightenImage h png None = gamma_brighten h png
   \<and> BrightenImage h png (Some True) = gamma_brighten h png
   \<and> BrightenImage h png (Some False) = reencode_unchanged h png
   \<and> (BrightenImage h png flag = (if flag = Some False then reencode_unchanged h png
                                   else gamma_brighten h png))"
  by (cases flag) (auto simp: GetBrightnessEnabled_def BrightenImage_def split: option.splits)

theorem BrightenImage_null_flag_brightens_witness:
  "fst (GetBrightnessEnabled None) = None
   \<and> fst (GetBrightnessEnabled (Some (map_of [(CVAR_STEAM_ENABLED, True)]))) = None
   \<and> BrightenImage (sample_host ''|'') [1, 1, 4, 1, 255, 0, 77] None
       = Inr [1, 1, 4, 20, 255, 0, 77]
   \<and> BrightenImage (sample_host ''|'') [1, 1, 4, 1, 255, 0, 77] (Some False)
       = Inr [1, 1, 4, 1, 255, 0, 77]"
  using BrightenImage_null_flag_brightens [of None "sample_host ''|''"
      "[1, 1, 4, 1, 255, 0, 77]" None]
    BrightenImage_null_flag_brightens [of "Some (map_of [(CVAR_STEAM_ENABLED, True)])"
      "sample_host ''|''" "[1, 1, 4, 1, 255, 0, 77]" "Some False"]
    gamma_brighten_decoded [OF toy_decode_rgba [of "''|''"]]
  by (simp add: cvar_names reencode_unchanged_def toy_decode_rgba toy_encode_rgba
        gamma_pixels_sample Let_def)

section \<open>Upload completion\<close>







text \<open>
  \<^verbatim>\<open>AddLocalAvatar\<close> leaves an upload pending only after it has staged the file, and
  every upload is staged at the same path.
\<close>

lemma AddLocalAvatar_pending_staged:
  "snd (AddLocalAvatar h mgr g originalFile w) = Pending \<Longrightarrow>
     GetBrightenedLocalAvatarPath \<in> files (fst (fst (AddLocalAvatar h mgr g originalFile w)))"
  by (auto simp: AddLocalAvatar_def UploadToCDN_def Let_def split_beta
        split: option.splits sum.splits if_splits)







section \<open>Remote load of a cached identity\<close>

text \<open>
  For an identity that is not the local player's and not on Xbox, a texture found under
  the id string is applied at once: one apply, no download, no image processing.
\<close>

lemma LoadForPRI_cache_hit:
  assumes "local_identity pc = Some l"
    and "\<not> (Uid l = Uid (UniqueId p) \<and> EpicAccountId l = EpicAccountId (UniqueId p))"
    and "Platform (UniqueId p) \<noteq> OnlinePlatform_Dingo"
    and "GetCachedAvatar w (UniqueNetIdToString h (UniqueId p)) = Some t"
  shows "LoadForPRI h pc (Some p) w = [LogDebug, SetAvatar (UniqueId p) (Some t)]"
  using assms
  by (auto simp: LoadForPRI_def local_identity_def Let_def split: option.splits)

text \<open>For an Xbox identity the cache is not consulted: the downloader is called in any world.\<close>

lemma LoadForPRI_xbox:
  assumes "local_identity pc = Some l"
    and "\<not> (Uid l = Uid (UniqueId p) \<and> EpicAccountId l = EpicAccountId (UniqueId p))"
    and "Platform (UniqueId p) = OnlinePlatform_Dingo"
  shows "LoadForPRI h pc (Some p) w = [DownloadXboxAvatarCall (UniqueId p) (PlayerName p)]"
  using assms
  by (auto simp: LoadForPRI_def local_identity_def Let_def split: option.splits)

lemma LoadAvatar_cache_hit:
  "avatar_cache w (cache_key h nid) = Some (Some t) \<Longrightarrow>
     LoadAvatar h mgr nid bytes w = (w, [LogDebug, LogDebug, SetAvatar nid (Some t)])"
  by (simp add: LoadAvatar_def cache_key_def)

lemma xbox_player_raw:
  "UniqueNetIdToString (sample_host ''-'') xbox_player = ''XboxOne-7''"
  "cache_key (sample_host ''-'') xbox_player = ''XboxOne-7''"
  by (simp_all add: cache_key_def sample_host_def sample_id_string_def xbox_player_def
        to_string.simps digit_char_def SanitizeFilename_def is_invalid_char_def
        invalidChars_def char_below_32_def)

text \<open>
  Claim C4 fails on the code for an Xbox identity.  The texture of the player is in the
  cache, under the id string and under the sanitised key alike.  \<^verbatim>\<open>LoadForPRI\<close>
  still calls \<^verbatim>\<open>DownloadXboxAvatar\<close>, which sends a request; nothing is applied from
  the cache by \<^verbatim>\<open>LoadForPRI\<close>.  Only when that request succeeds does
  \<^verbatim>\<open>LoadAvatar\<close> find the cached texture and apply it, without image processing;
  when it fails nothing is applied.
\<close>

theorem LoadForPRI_xbox_cached_still_fetches:
  "IsAvatarCached \<lparr>avatar_cache = [''XboxOne-7'' \<mapsto> Some 3], files = {}\<rparr>
      (UniqueNetIdToString (sample_host ''-'') xbox_player)
   \<and> IsAvatarCached \<lparr>avatar_cache = [''XboxOne-7'' \<mapsto> Some 3], files = {}\<rparr>
      (cache_key (sample_host ''-'') xbox_player)
   \<and> LoadForPRI (sample_host ''-'')
        (Some \<lparr>PRI = Some \<lparr>UniqueId = epic_viewer, PlayerName = ''me''\<rparr>\<rparr>)
        (Some \<lparr>UniqueId = xbox_player, PlayerName = ''Gamer''\<rparr>)
        \<lparr>avatar_cache = [''XboxOne-7'' \<mapsto> Some 3], files = {}\<rparr>
       = [DownloadXboxAvatarCall xbox_player ''Gamer'']
   \<and> DownloadXboxAvatar (Some sample_cvars) xbox_player ''Gamer''
       = Inr [SendCurlRequest ''GET''
               ''https://api.borgox.tech/api/v1/xbox/retrieve/Gamer?default_enabled=true'']
   \<and> download_completed (Some (LoadAvatar (sample_host ''-'') (Some sample_cvars))) xbox_player
        200 (Some [1, 1, 3, 10, 20, 30]) 6
        \<lparr>avatar_cache = [''XboxOne-7'' \<mapsto> Some 3], files = {}\<rparr>
       = (\<lparr>avatar_cache = [''XboxOne-7'' \<mapsto> Some 3], files = {}\<rparr>,
          [LogDebug, LogSuccess, LogDebug, LogDebug, SetAvatar xbox_player (Some 3)])
   \<and> download_completed (Some (LoadAvatar (sample_host ''-'') (Some sample_cvars))) xbox_player
        404 None 0 \<lparr>avatar_cache = [''XboxOne-7'' \<mapsto> Some 3], files = {}\<rparr>
       = (\<lparr>avatar_cache = [''XboxOne-7'' \<mapsto> Some 3], files = {}\<rparr>, [LogDebug, LogDebug])"
proof -
  have l: "local_identity (Some \<lparr>PRI = Some \<lparr>UniqueId = epic_viewer, PlayerName = ''me''\<rparr>\<rparr>)
     = Some epic_viewer"
    by (simp add: local_identity_def)
  have x: "LoadForPRI (sample_host ''-'')
        (Some \<lparr>PRI = Some \<lparr>UniqueId = epic_viewer, PlayerName = ''me''\<rparr>\<rparr>)
        (Some \<lparr>UniqueId = xbox_player, PlayerName = ''Gamer''\<rparr>)
        \<lparr>avatar_cache = [''XboxOne-7'' \<mapsto> Some 3], files = {}\<rparr>
       = [DownloadXboxAvatarCall xbox_player ''Gamer'']"
    using LoadForPRI_xbox [OF l, of "\<lparr>UniqueId = xbox_player, PlayerName = ''Gamer''\<rparr>"]
    by (simp add: epic_viewer_def xbox_player_def)
  have hit: "LoadAvatar (sample_host ''-'') (Some sample_cvars) xbox_player bytes
        \<lparr>avatar_cache = [''XboxOne-7'' \<mapsto> Some 3], files = {}\<rparr>
       = (\<lparr>avatar_cache = [''XboxOne-7'' \<mapsto> Some 3], files = {}\<rparr>,
          [LogDebug, LogDebug, SetAvatar xbox_player (Some 3)])" for bytes
    by (rule LoadAvatar_cache_hit) (simp add: xbox_player_raw)
  have req: "DownloadXboxAvatar (Some sample_cvars) xbox_player ''Gamer''
       = Inr [SendCurlRequest ''GET''
               ''https://api.borgox.tech/api/v1/xbox/retrieve/Gamer?default_enabled=true'']"
    by (simp add: DownloadXboxAvatar_def sample_cvars_def cvar_names API_BASE_URL_def
          API_XBOX_RETRIEVE_def)
  show ?thesis
    by (simp add: x req xbox_player_raw IsAvatarCached_def download_completed_def hit Let_def)
qed

end
